theory Spec2Isabelle
  imports Main "HOL-Library.Char_ord" "HOL-Library.List_Lexorder"
begin

section \<open>Python values used by the timetable generator\<close>

text \<open>
  Python formats an integer inside an f-string in decimal, with a leading minus sign for a
  negative number.
\<close>

definition digit_char :: "nat \<Rightarrow> char" where
  "digit_char d = char_of (48 + d)"

fun str_nat :: "nat \<Rightarrow> string" where
  "str_nat n = (if n < 10 then [digit_char n] else str_nat (n div 10) @ [digit_char (n mod 10)])"

declare str_nat.simps [simp del]

definition str_int :: "int \<Rightarrow> string" where
  "str_int i = (if i < 0 then CHR ''-'' # str_nat (nat (- i)) else str_nat (nat i))"

text \<open>\<^verbatim>\<open>range(a, b)\<close> over Python integers.\<close>

definition py_range :: "int \<Rightarrow> int \<Rightarrow> int list" where
  "py_range a b = [a..b - 1]"

section \<open>TimetableGenerator.py: the application state\<close>

text \<open>
  A classroom is the dictionary \<^verbatim>\<open>{"capacity": .., "type": .., "max_daily_hours": ..}\<close>;
  the last key is read with \<^verbatim>\<open>.get\<close> and a default, so it may be absent.
\<close>

record classroom =
  capacity :: int
  ctype :: string
  max_daily_hours :: "int option"

text \<open>
  The part of \<^verbatim>\<open>TimetableApp\<close> that \<^verbatim>\<open>update_slots\<close> and the solve read or write: the
  slot labels \<^verbatim>\<open>self.slots\<close>, the Tk integer variables, the upper bounds of the three spin
  boxes, and the classroom registry \<^verbatim>\<open>self.classrooms\<close> (a dictionary, kept as an association
  list in insertion order). The two attributes carry the prefix \<open>self_\<close> because the solve
  functions have parameters of the same names.
\<close>

record app_state =
  self_slots :: "string list"
  start_hour_var :: int
  end_hour_var :: int
  lunch_hour_var :: int
  min_hours_day_var :: int
  max_hours_day_var :: int
  class_max_daily_hours_var :: int
  min_hours_spinbox_to :: int
  max_hours_spinbox_to :: int
  class_max_hours_spinbox_to :: int
  saturday_var :: bool
  self_classrooms :: "(string \<times> classroom) list"

datatype message = ShowError string string | ShowInfo string string

definition DAYS :: "string list" where
  "DAYS = [''Mon'', ''Tue'', ''Wed'', ''Thu'', ''Fri'']"

definition DEFAULT_SLOTS :: "string list" where
  "DEFAULT_SLOTS = [''9-10'', ''10-11'', ''11-12'', ''12-1'', ''2-3'', ''3-4'', ''4-5'']"

definition get_current_days :: "app_state \<Rightarrow> string list" where
  "get_current_days st = (if saturday_var st then DAYS @ [''Sat''] else DAYS)"

subsection \<open>\<^verbatim>\<open>update_slots\<close> and \<^verbatim>\<open>_update_slot_dependent_widgets\<close>\<close>

definition slot_label :: "int \<Rightarrow> string" where
  "slot_label hour = str_int hour @ ''-'' @ str_int (hour + 1)"

definition update_slot_dependent_widgets :: "app_state \<Rightarrow> app_state" where
  "update_slot_dependent_widgets st =
    (let num_slots0 = int (length (self_slots st));
         num_slots = (if num_slots0 = 0 then 1 else num_slots0);
         st1 = st\<lparr>min_hours_spinbox_to := num_slots,
                  max_hours_spinbox_to := num_slots,
                  class_max_hours_spinbox_to := num_slots\<rparr>;
         st2 = (if max_hours_day_var st1 > num_slots
                then st1\<lparr>max_hours_day_var := num_slots\<rparr> else st1);
         st3 = (if class_max_daily_hours_var st2 > num_slots
                then st2\<lparr>class_max_daily_hours_var := num_slots\<rparr> else st2)
     in st3)"

definition update_slots :: "app_state \<Rightarrow> message \<times> app_state" where
  "update_slots st =
    (let start = start_hour_var st; end = end_hour_var st; lunch = lunch_hour_var st in
     if start \<ge> end
     then (ShowError ''Error'' ''Start hour must be less than end hour.'', st)
     else
       (let new_slots = map slot_label (filter (\<lambda>hour. hour \<noteq> lunch) (py_range start end));
            st' = update_slot_dependent_widgets (st\<lparr>self_slots := new_slots\<rparr>)
        in (ShowInfo ''Success''
              (''Time slots updated to '' @ str_int (int (length (self_slots st'))) @
               '' daily working hours.''), st')))"


section \<open>The CP-SAT interface\<close>

text \<open>
  The solving engine is external. What the programs use of it is modelled here: Boolean and
  bounded integer variables, linear constraints \<^verbatim>\<open>model.Add(lhs cmp rhs)\<close>,
  \<^verbatim>\<open>AddBoolAnd\<close>, \<^verbatim>\<open>AddBoolOr\<close>, enforcement literals (\<^verbatim>\<open>OnlyEnforceIf\<close>), an objective
  to maximise, and the status and values a solve returns.

  A literal is a Boolean variable or its negation (\<^verbatim>\<open>v.Not()\<close>). Every linear expression
  in the two programs is a sum of variables plus a constant.
\<close>

datatype 'v lit = Pos 'v | Neg 'v

datatype cmp = EQ | NE | LE | GE | GT

datatype 'v linexpr = LinExpr "'v list" int

datatype 'v constr =
    Linear "'v linexpr" cmp "'v linexpr" "'v lit list"
  | BoolAnd "'v lit list" "'v lit list"
  | BoolOr "'v lit list" "'v lit list"

record 'v cp_model =
  bool_vars :: "'v list"
  int_vars :: "('v \<times> int \<times> int) list"
  constraints :: "'v constr list"
  objective :: "(int \<times> 'v lit) list"

datatype cp_status = UNKNOWN | MODEL_INVALID | FEASIBLE | INFEASIBLE | OPTIMAL

text \<open>
  \<^verbatim>\<open>solver.Solve(model)\<close> with \<^verbatim>\<open>max_time_in_seconds = time_limit\<close>: the status, and
  \<^verbatim>\<open>solver.Value\<close>.
\<close>

type_synonym 'v solver = "int \<Rightarrow> 'v cp_model \<Rightarrow> cp_status \<times> ('v \<Rightarrow> int)"

fun lit_true :: "('v \<Rightarrow> int) \<Rightarrow> 'v lit \<Rightarrow> bool" where
  "lit_true val (Pos v) = (val v = 1)"
| "lit_true val (Neg v) = (val v = 0)"

fun eval_lin :: "('v \<Rightarrow> int) \<Rightarrow> 'v linexpr \<Rightarrow> int" where
  "eval_lin val (LinExpr vs c) = sum_list (map val vs) + c"

fun cmp_holds :: "cmp \<Rightarrow> int \<Rightarrow> int \<Rightarrow> bool" where
  "cmp_holds EQ a b = (a = b)"
| "cmp_holds NE a b = (a \<noteq> b)"
| "cmp_holds LE a b = (a \<le> b)"
| "cmp_holds GE a b = (a \<ge> b)"
| "cmp_holds GT a b = (a > b)"

fun holds :: "('v \<Rightarrow> int) \<Rightarrow> 'v constr \<Rightarrow> bool" where
  "holds val (Linear l c r enf) =
     ((\<forall>e \<in> set enf. lit_true val e) \<longrightarrow> cmp_holds c (eval_lin val l) (eval_lin val r))"
| "holds val (BoolAnd ls enf) =
     ((\<forall>e \<in> set enf. lit_true val e) \<longrightarrow> (\<forall>l \<in> set ls. lit_true val l))"
| "holds val (BoolOr ls enf) =
     ((\<forall>e \<in> set enf. lit_true val e) \<longrightarrow> (\<exists>l \<in> set ls. lit_true val l))"

text \<open>A solution of a model: every variable in its domain and every constraint true.\<close>

definition satisfies :: "'v cp_model \<Rightarrow> ('v \<Rightarrow> int) \<Rightarrow> bool" where
  "satisfies m val \<longleftrightarrow>
     (\<forall>v \<in> set (bool_vars m). val v = 0 \<or> val v = 1) \<and>
     (\<forall>(v, lo, hi) \<in> set (int_vars m). lo \<le> val v \<and> val v \<le> hi) \<and>
     (\<forall>c \<in> set (constraints m). holds val c)"

text \<open>
  The engine's contract, as far as the programs rely on it: a status of \<^verbatim>\<open>OPTIMAL\<close> or
  \<^verbatim>\<open>FEASIBLE\<close> comes with values that are a solution of the model.
\<close>

definition solver_contract :: "'v solver \<Rightarrow> bool" where
  "solver_contract Solve \<longleftrightarrow>
     (\<forall>lim m. fst (Solve lim m) \<in> {OPTIMAL, FEASIBLE} \<longrightarrow> satisfies m (snd (Solve lim m)))"

text \<open>
  A small engine that honours the contract: it tries one candidate and reports \<^verbatim>\<open>FEASIBLE\<close>
  when the candidate is a solution, \<^verbatim>\<open>UNKNOWN\<close> otherwise.
\<close>

definition candidate_solver :: "('v \<Rightarrow> int) \<Rightarrow> 'v solver" where
  "candidate_solver cand lim m = (if satisfies m cand then (FEASIBLE, cand) else (UNKNOWN, cand))"

datatype error = ValueError string | InvalidLiteral string | RuntimeError string

subsection \<open>\<^verbatim>\<open>int(label.split('-')[0])\<close>\<close>

text \<open>
  \<^verbatim>\<open>int\<close> on a string: surrounding white space is dropped, one sign is allowed, then at least
  one decimal digit, with single underscores allowed between digits. Anything else raises
  \<^verbatim>\<open>ValueError\<close>. Characters are bytes here, so the non-ASCII digits and spaces that Python
  also accepts are outside this model.
\<close>

definition is_space :: "char \<Rightarrow> bool" where
  "is_space c \<longleftrightarrow> c \<in> set [CHR '' '', CHR 0x09, CHR 0x0A, CHR 0x0B, CHR 0x0C, CHR 0x0D]"

definition is_digit :: "char \<Rightarrow> bool" where
  "is_digit c \<longleftrightarrow> CHR ''0'' \<le> c \<and> c \<le> CHR ''9''"

definition strip :: "string \<Rightarrow> string" where
  "strip s = rev (dropWhile is_space (rev (dropWhile is_space s)))"

fun digits_ok :: "string \<Rightarrow> bool" where
  "digits_ok [] = False"
| "digits_ok [c] = is_digit c"
| "digits_ok (c # d # r) =
     (is_digit c \<and> (if d = CHR ''_'' then digits_ok r else digits_ok (d # r)))"

definition digits_value :: "string \<Rightarrow> int" where
  "digits_value ds = foldl (\<lambda>acc c. 10 * acc + (int (of_char c) - 48)) 0 ds"

definition py_int :: "string \<Rightarrow> int option" where
  "py_int s =
    (let t = strip s;
         (sgn, ds) = (case t of
                        c # r \<Rightarrow> if c = CHR ''-'' then (- 1, r)
                                 else if c = CHR ''+'' then (1, r) else (1, t)
                      | [] \<Rightarrow> (1, t))
     in if digits_ok ds then Some (sgn * digits_value (filter (\<lambda>c. c \<noteq> CHR ''_'') ds))
        else None)"

definition slot_start_hour :: "string \<Rightarrow> int option" where
  "slot_start_hour label = py_int (takeWhile (\<lambda>c. c \<noteq> CHR ''-'') label)"


section \<open>TimetableGenerator.py: \<^verbatim>\<open>solve_timetable_model\<close>\<close>

subsection \<open>The inputs\<close>

text \<open>
  A subject of a batch is \<^verbatim>\<open>{"hours": .., "type": ..}\<close>, both read with \<^verbatim>\<open>.get\<close>. A batch is
  \<^verbatim>\<open>{"year": .., "branch": .., "subjects": {name: subject}}\<close>. A faculty member is
  \<^verbatim>\<open>{"assignments": {subject: set of batch names}, "preferences": {"prefers_morning": ..}}\<close>;
  of the preferences only the truth value of \<^verbatim>\<open>prefers_morning\<close> is read (absent counts as
  false). Dictionaries are association lists in insertion order, looked up with \<open>map_of\<close>.
  The keys \<^verbatim>\<open>hours\<close>, \<^verbatim>\<open>type\<close> and \<^verbatim>\<open>subjects\<close> are the fields \<open>subject_hours\<close>,
  \<open>subject_type\<close> and \<open>batch_subjects\<close>.
\<close>

record subject_info =
  subject_hours :: "int option"
  subject_type :: "string option"

record batch =
  year :: string
  branch :: string
  batch_subjects :: "(string \<times> subject_info) list"

record faculty_data =
  assignments :: "(string \<times> string set) list"
  prefers_morning :: bool

definition MAX_CONSECUTIVE_CLASSES :: nat where "MAX_CONSECUTIVE_CLASSES = 3"
definition WEIGHT_ADJACENCY :: int where "WEIGHT_ADJACENCY = 5"
definition WEIGHT_PENALTY_FREE_DAY :: int where "WEIGHT_PENALTY_FREE_DAY = 1000"
definition WEIGHT_PENALTY_LONG_STRETCH :: int where "WEIGHT_PENALTY_LONG_STRETCH = 50"
definition WEIGHT_PENALTY_FACULTY_PREFERENCE :: int where "WEIGHT_PENALTY_FACULTY_PREFERENCE = 20"

subsection \<open>The variables\<close>

text \<open>
  \<open>X b s f c t\<close> is \<^verbatim>\<open>x[b, s, f, c, t]\<close>, \<open>Y b t\<close> is \<^verbatim>\<open>y[b, t]\<close>; the others are the
  indicators \<^verbatim>\<open>day_has_class_b_d\<close>, \<^verbatim>\<open>adj_b_d_k\<close>, \<^verbatim>\<open>free_day_b_d\<close>, \<^verbatim>\<open>long_stretch_b_d_k\<close>
  and \<^verbatim>\<open>pref_f_t\<close>.
\<close>

datatype tvar =
    X nat nat nat nat nat
  | Y nat nat
  | Day_has_class nat nat
  | Adj nat nat nat
  | Free_day nat nat
  | Long_stretch nat nat nat
  | Pref nat nat

abbreviation Sum :: "'v list \<Rightarrow> 'v linexpr" where "Sum vs \<equiv> LinExpr vs 0"
abbreviation Const :: "int \<Rightarrow> 'v linexpr" where "Const k \<equiv> LinExpr [] k"

definition all_subjects_of :: "(string \<times> batch) list \<Rightarrow> string list" where
  "all_subjects_of batches = sort (remdups (concat (map (\<lambda>(n, b). map fst (batch_subjects b)) batches)))"

definition faculty_for_subject ::
  "(string \<times> faculty_data) list \<Rightarrow> string \<Rightarrow> string \<Rightarrow> string list" where
  "faculty_for_subject faculty s_name b_name =
     [fac. (fac, dat) \<leftarrow> faculty,
           (case map_of (assignments dat) s_name of None \<Rightarrow> False | Some bs \<Rightarrow> b_name \<in> bs)]"

definition x_vars :: "nat \<Rightarrow> nat \<Rightarrow> nat \<Rightarrow> nat \<Rightarrow> nat \<Rightarrow> tvar list" where
  "x_vars num_batches num_subjects num_faculty num_classrooms total_slots =
     [X b s f c t. b \<leftarrow> [0..<num_batches], s \<leftarrow> [0..<num_subjects], f \<leftarrow> [0..<num_faculty],
                   c \<leftarrow> [0..<num_classrooms], t \<leftarrow> [0..<total_slots]]"

subsection \<open>The hard constraints, in the order the code adds them\<close>

text \<open>Lines 1097-1111: what one (batch, subject) pair forces to zero.\<close>

definition pair_restrictions ::
  "(string \<times> batch) list \<Rightarrow> (string \<times> faculty_data) list \<Rightarrow> (string \<times> classroom) list \<Rightarrow>
   string list \<Rightarrow> string list \<Rightarrow> nat \<Rightarrow> nat \<Rightarrow> string \<Rightarrow> nat \<Rightarrow> string \<Rightarrow> tvar constr list" where
  "pair_restrictions batches faculty classrooms faculty_list classroom_list total_slots
       b_idx b_name s_idx s_name =
    (let num_faculty = length faculty_list; num_classrooms = length classroom_list in
     case map_of (batch_subjects (the (map_of batches b_name))) s_name of
       None \<Rightarrow>
         [Linear (Sum [X b_idx s_idx f c t. f \<leftarrow> [0..<num_faculty], c \<leftarrow> [0..<num_classrooms],
                                            t \<leftarrow> [0..<total_slots]]) EQ (Const 0) []]
     | Some info \<Rightarrow>
         [Linear (Sum [X b_idx s_idx f_idx c t. c \<leftarrow> [0..<num_classrooms], t \<leftarrow> [0..<total_slots]])
                 EQ (Const 0) [].
            (f_idx, f_name) \<leftarrow> enumerate 0 faculty_list,
            f_name \<notin> set (faculty_for_subject faculty s_name b_name)] @
         [Linear (Sum [X b_idx s_idx f c_idx t. f \<leftarrow> [0..<num_faculty], t \<leftarrow> [0..<total_slots]])
                 EQ (Const 0) [].
            (c_idx, c_name) \<leftarrow> enumerate 0 classroom_list,
            Some (ctype (the (map_of classrooms c_name))) \<noteq> subject_type info])"

definition structural_constraints ::
  "(string \<times> batch) list \<Rightarrow> (string \<times> faculty_data) list \<Rightarrow> (string \<times> classroom) list \<Rightarrow>
   string list \<Rightarrow> string list \<Rightarrow> string list \<Rightarrow> string list \<Rightarrow> nat \<Rightarrow> tvar constr list" where
  "structural_constraints batches faculty classrooms batch_list faculty_list classroom_list
       all_subjects total_slots =
     concat [pair_restrictions batches faculty classrooms faculty_list classroom_list total_slots
               b_idx b_name s_idx s_name.
             (b_idx, b_name) \<leftarrow> enumerate 0 batch_list,
             (s_idx, s_name) \<leftarrow> enumerate 0 all_subjects]"

text \<open>Lines 1113-1114.\<close>

definition batch_slot_constraints :: "nat \<Rightarrow> nat \<Rightarrow> nat \<Rightarrow> nat \<Rightarrow> nat \<Rightarrow> tvar constr list" where
  "batch_slot_constraints num_batches num_subjects num_faculty num_classrooms total_slots =
     [Linear (Sum [X b s f c t. s \<leftarrow> [0..<num_subjects], f \<leftarrow> [0..<num_faculty],
                                c \<leftarrow> [0..<num_classrooms]]) LE (Const 1) [].
      b \<leftarrow> [0..<num_batches], t \<leftarrow> [0..<total_slots]]"

text \<open>Lines 1116-1117.\<close>

definition faculty_slot_constraints :: "nat \<Rightarrow> nat \<Rightarrow> nat \<Rightarrow> nat \<Rightarrow> nat \<Rightarrow> tvar constr list" where
  "faculty_slot_constraints num_batches num_subjects num_faculty num_classrooms total_slots =
     [Linear (Sum [X b s f c t. b \<leftarrow> [0..<num_batches], s \<leftarrow> [0..<num_subjects],
                                c \<leftarrow> [0..<num_classrooms]]) LE (Const 1) [].
      f \<leftarrow> [0..<num_faculty], t \<leftarrow> [0..<total_slots]]"

text \<open>Lines 1119-1121.\<close>

definition classroom_slot_constraints ::
  "(string \<times> classroom) list \<Rightarrow> string list \<Rightarrow> nat \<Rightarrow> nat \<Rightarrow> nat \<Rightarrow> nat \<Rightarrow> tvar constr list" where
  "classroom_slot_constraints classrooms classroom_list num_batches num_subjects num_faculty
       total_slots =
     [Linear (Sum [X b s f c_idx t. b \<leftarrow> [0..<num_batches], s \<leftarrow> [0..<num_subjects],
                                    f \<leftarrow> [0..<num_faculty]])
             LE (Const (capacity (the (map_of classrooms c_name)))) [].
      (c_idx, c_name) \<leftarrow> enumerate 0 classroom_list, t \<leftarrow> [0..<total_slots]]"

text \<open>Lines 1124-1128.\<close>

definition classroom_day_constraints ::
  "(string \<times> classroom) list \<Rightarrow> string list \<Rightarrow> nat \<Rightarrow> nat \<Rightarrow> nat \<Rightarrow> nat \<Rightarrow> nat \<Rightarrow>
   tvar constr list" where
  "classroom_day_constraints classrooms classroom_list num_batches num_subjects num_faculty
       num_days num_slots_per_day =
     [Linear (Sum [X b s f c_idx t. b \<leftarrow> [0..<num_batches], s \<leftarrow> [0..<num_subjects],
                                    f \<leftarrow> [0..<num_faculty],
                                    t \<leftarrow> [d * num_slots_per_day..<(d + 1) * num_slots_per_day]])
             LE (Const (case max_daily_hours (the (map_of classrooms c_name)) of
                          None \<Rightarrow> int num_slots_per_day | Some max_h \<Rightarrow> max_h)) [].
      (c_idx, c_name) \<leftarrow> enumerate 0 classroom_list, d \<leftarrow> [0..<num_days]]"

text \<open>Lines 1130-1134.\<close>

definition required_hours :: "subject_info \<Rightarrow> int" where
  "required_hours info = (case subject_hours info of None \<Rightarrow> 0 | Some h \<Rightarrow> h)"

definition exact_hours_constraints ::
  "(string \<times> batch) list \<Rightarrow> string list \<Rightarrow> string list \<Rightarrow> nat \<Rightarrow> nat \<Rightarrow> nat \<Rightarrow>
   tvar constr list" where
  "exact_hours_constraints batches batch_list all_subjects num_faculty num_classrooms total_slots =
     concat [(case map_of (batch_subjects (the (map_of batches b_name))) s_name of
                None \<Rightarrow> []
              | Some info \<Rightarrow>
                  [Linear (Sum [X b_idx s_idx f c t. f \<leftarrow> [0..<num_faculty],
                                c \<leftarrow> [0..<num_classrooms], t \<leftarrow> [0..<total_slots]])
                          EQ (Const (required_hours info)) []]).
             (b_idx, b_name) \<leftarrow> enumerate 0 batch_list,
             (s_idx, s_name) \<leftarrow> enumerate 0 all_subjects]"

text \<open>Lines 1136-1139.\<close>

definition y_vars :: "nat \<Rightarrow> nat \<Rightarrow> tvar list" where
  "y_vars num_batches total_slots = [Y b t. b \<leftarrow> [0..<num_batches], t \<leftarrow> [0..<total_slots]]"

definition y_constraints :: "nat \<Rightarrow> nat \<Rightarrow> nat \<Rightarrow> nat \<Rightarrow> nat \<Rightarrow> tvar constr list" where
  "y_constraints num_batches num_subjects num_faculty num_classrooms total_slots =
     [Linear (Sum [X b s f c t. s \<leftarrow> [0..<num_subjects], f \<leftarrow> [0..<num_faculty],
                                c \<leftarrow> [0..<num_classrooms]]) EQ (Sum [Y b t]) [].
      b \<leftarrow> [0..<num_batches], t \<leftarrow> [0..<total_slots]]"

text \<open>Lines 1141-1148.\<close>

definition daily_hours :: "nat \<Rightarrow> nat \<Rightarrow> nat \<Rightarrow> tvar linexpr" where
  "daily_hours num_slots_per_day b d =
     Sum [Y b (d * num_slots_per_day + k). k \<leftarrow> [0..<num_slots_per_day]]"

definition day_vars :: "nat \<Rightarrow> nat \<Rightarrow> tvar list" where
  "day_vars num_batches num_days = [Day_has_class b d. b \<leftarrow> [0..<num_batches], d \<leftarrow> [0..<num_days]]"

definition day_constraints :: "nat \<Rightarrow> nat \<Rightarrow> nat \<Rightarrow> int \<Rightarrow> int \<Rightarrow> tvar constr list" where
  "day_constraints num_batches num_days num_slots_per_day min_hours_day max_hours_day =
     concat [[Linear (daily_hours num_slots_per_day b d) LE (Const max_hours_day) [],
              Linear (daily_hours num_slots_per_day b d) GT (Const 0) [Pos (Day_has_class b d)],
              Linear (daily_hours num_slots_per_day b d) EQ (Const 0) [Neg (Day_has_class b d)],
              Linear (daily_hours num_slots_per_day b d) GE (Const min_hours_day)
                     [Pos (Day_has_class b d)]].
             b \<leftarrow> [0..<num_batches], d \<leftarrow> [0..<num_days]]"

subsection \<open>The objective's indicators\<close>

text \<open>Lines 1152-1158.\<close>

definition adj_vars :: "nat \<Rightarrow> nat \<Rightarrow> nat \<Rightarrow> tvar list" where
  "adj_vars num_batches num_days num_slots_per_day =
     [Adj b d k. b \<leftarrow> [0..<num_batches], d \<leftarrow> [0..<num_days], k \<leftarrow> [0..<num_slots_per_day - 1]]"

definition adj_constraints :: "nat \<Rightarrow> nat \<Rightarrow> nat \<Rightarrow> tvar constr list" where
  "adj_constraints num_batches num_days num_slots_per_day =
     [BoolAnd [Pos (Y b (d * num_slots_per_day + k)), Pos (Y b (d * num_slots_per_day + k + 1))]
              [Pos (Adj b d k)].
      b \<leftarrow> [0..<num_batches], d \<leftarrow> [0..<num_days], k \<leftarrow> [0..<num_slots_per_day - 1]]"

text \<open>Lines 1160-1165.\<close>

definition free_vars :: "nat \<Rightarrow> nat \<Rightarrow> tvar list" where
  "free_vars num_batches num_days = [Free_day b d. b \<leftarrow> [0..<num_batches], d \<leftarrow> [0..<num_days]]"

definition free_constraints :: "nat \<Rightarrow> nat \<Rightarrow> nat \<Rightarrow> tvar constr list" where
  "free_constraints num_batches num_days num_slots_per_day =
     [Linear (daily_hours num_slots_per_day b d) EQ (Const 0) [Pos (Free_day b d)].
      b \<leftarrow> [0..<num_batches], d \<leftarrow> [0..<num_days]]"

text \<open>Lines 1167-1174.\<close>

definition long_vars :: "nat \<Rightarrow> nat \<Rightarrow> nat \<Rightarrow> tvar list" where
  "long_vars num_batches num_days num_slots_per_day =
     [Long_stretch b d k. b \<leftarrow> [0..<num_batches], d \<leftarrow> [0..<num_days],
                          k \<leftarrow> [0..<num_slots_per_day - MAX_CONSECUTIVE_CLASSES]]"

definition long_constraints :: "nat \<Rightarrow> nat \<Rightarrow> nat \<Rightarrow> tvar constr list" where
  "long_constraints num_batches num_days num_slots_per_day =
     [BoolAnd [Pos (Y b (d * num_slots_per_day + k + i)). i \<leftarrow> [0..<MAX_CONSECUTIVE_CLASSES + 1]]
              [Pos (Long_stretch b d k)].
      b \<leftarrow> [0..<num_batches], d \<leftarrow> [0..<num_days],
      k \<leftarrow> [0..<num_slots_per_day - MAX_CONSECUTIVE_CLASSES]]"

text \<open>
  Lines 1176-1187. The start hour of every slot label is parsed inside the loops, so the
  first label that is not an integer before its first \<^verbatim>\<open>-\<close> raises \<^verbatim>\<open>ValueError\<close>, but only
  when the loops run: some faculty member prefers mornings and there is at least one day.
  \<open>late_slots\<close> walks the labels as the innermost loop does and keeps the slots that start
  at 12 or later.
\<close>

fun late_slots :: "string list \<Rightarrow> nat \<Rightarrow> error + nat list" where
  "late_slots [] k = Inr []"
| "late_slots (label # rest) k =
     (case slot_start_hour label of
        None \<Rightarrow> Inl (InvalidLiteral (takeWhile (\<lambda>c. c \<noteq> CHR ''-'') label))
      | Some start_hour \<Rightarrow>
          (case late_slots rest (Suc k) of
             Inl e \<Rightarrow> Inl e
           | Inr ks \<Rightarrow> Inr (if start_hour \<ge> 12 then k # ks else ks)))"

definition preferring :: "(string \<times> faculty_data) list \<Rightarrow> string list \<Rightarrow> nat list" where
  "preferring faculty faculty_list =
     [f_idx. (f_idx, f_name) \<leftarrow> enumerate 0 faculty_list,
             prefers_morning (the (map_of faculty f_name))]"

definition pref_slots ::
  "string list \<Rightarrow> (string \<times> faculty_data) list \<Rightarrow> string list \<Rightarrow> nat \<Rightarrow> error + nat list" where
  "pref_slots slots_of_day faculty faculty_list num_days =
     (if preferring faculty faculty_list = [] \<or> num_days = 0 then Inr []
      else late_slots slots_of_day 0)"

definition pref_vars ::
  "(string \<times> faculty_data) list \<Rightarrow> string list \<Rightarrow> nat \<Rightarrow> nat \<Rightarrow> nat list \<Rightarrow> tvar list" where
  "pref_vars faculty faculty_list num_days num_slots_per_day late =
     [Pref f_idx (d * num_slots_per_day + k).
      f_idx \<leftarrow> preferring faculty faculty_list, d \<leftarrow> [0..<num_days], k \<leftarrow> late]"

definition pref_constraints ::
  "(string \<times> faculty_data) list \<Rightarrow> string list \<Rightarrow> nat \<Rightarrow> nat \<Rightarrow> nat \<Rightarrow> nat \<Rightarrow> nat \<Rightarrow> nat list \<Rightarrow>
   tvar constr list" where
  "pref_constraints faculty faculty_list num_batches num_subjects num_classrooms num_days
       num_slots_per_day late =
     [Linear (Sum [X b s f_idx c (d * num_slots_per_day + k).
                   b \<leftarrow> [0..<num_batches], s \<leftarrow> [0..<num_subjects], c \<leftarrow> [0..<num_classrooms]])
             GT (Const 0) [Pos (Pref f_idx (d * num_slots_per_day + k))].
      f_idx \<leftarrow> preferring faculty faculty_list, d \<leftarrow> [0..<num_days], k \<leftarrow> late]"


definition objective_terms :: "nat \<Rightarrow> nat \<Rightarrow> nat \<Rightarrow> tvar list \<Rightarrow> (int \<times> tvar lit) list" where
  "objective_terms num_batches num_days num_slots_per_day prefs =
     [(WEIGHT_ADJACENCY, Pos v). v \<leftarrow> adj_vars num_batches num_days num_slots_per_day] @
     [(- WEIGHT_PENALTY_FREE_DAY, Pos v). v \<leftarrow> free_vars num_batches num_days] @
     [(- WEIGHT_PENALTY_LONG_STRETCH, Pos v). v \<leftarrow> long_vars num_batches num_days num_slots_per_day] @
     [(- WEIGHT_PENALTY_FACULTY_PREFERENCE, Pos v). v \<leftarrow> prefs]"

subsection \<open>The model, the solve and the decoding\<close>

definition hard_constraints ::
  "(string \<times> batch) list \<Rightarrow> (string \<times> faculty_data) list \<Rightarrow> (string \<times> classroom) list \<Rightarrow>
   nat \<Rightarrow> nat \<Rightarrow> int \<Rightarrow> int \<Rightarrow> tvar constr list" where
  "hard_constraints batches faculty classrooms num_days num_slots_per_day
       min_hours_day max_hours_day =
    (let batch_list = sort (map fst batches);
         faculty_list = sort (map fst faculty);
         classroom_list = sort (map fst classrooms);
         all_subjects = all_subjects_of batches;
         num_batches = length batch_list;
         num_faculty = length faculty_list;
         num_classrooms = length classroom_list;
         num_subjects = length all_subjects;
         total_slots = num_days * num_slots_per_day
     in structural_constraints batches faculty classrooms batch_list faculty_list classroom_list
          all_subjects total_slots @
        batch_slot_constraints num_batches num_subjects num_faculty num_classrooms total_slots @
        faculty_slot_constraints num_batches num_subjects num_faculty num_classrooms total_slots @
        classroom_slot_constraints classrooms classroom_list num_batches num_subjects num_faculty
          total_slots @
        classroom_day_constraints classrooms classroom_list num_batches num_subjects num_faculty
          num_days num_slots_per_day @
        exact_hours_constraints batches batch_list all_subjects num_faculty num_classrooms
          total_slots @
        y_constraints num_batches num_subjects num_faculty num_classrooms total_slots @
        day_constraints num_batches num_days num_slots_per_day min_hours_day max_hours_day)"

definition build_model ::
  "app_state \<Rightarrow> (string \<times> batch) list \<Rightarrow> (string \<times> faculty_data) list \<Rightarrow>
   (string \<times> classroom) list \<Rightarrow> int \<Rightarrow> int \<Rightarrow> error + tvar cp_model" where
  "build_model self batches faculty classrooms min_hours_day max_hours_day =
    (let days = get_current_days self;
         faculty_list = sort (map fst faculty);
         num_batches = length (sort (map fst batches));
         num_faculty = length faculty_list;
         num_classrooms = length (sort (map fst classrooms));
         num_subjects = length (all_subjects_of batches);
         num_days = length days;
         num_slots_per_day = length (self_slots self);
         total_slots = num_days * num_slots_per_day
     in case pref_slots (self_slots self) faculty faculty_list num_days of
          Inl e \<Rightarrow> Inl e
        | Inr late \<Rightarrow>
            Inr \<lparr>bool_vars =
                   x_vars num_batches num_subjects num_faculty num_classrooms total_slots @
                   y_vars num_batches total_slots @
                   day_vars num_batches num_days @
                   adj_vars num_batches num_days num_slots_per_day @
                   free_vars num_batches num_days @
                   long_vars num_batches num_days num_slots_per_day @
                   pref_vars faculty faculty_list num_days num_slots_per_day late,
                 int_vars = [],
                 constraints =
                   hard_constraints batches faculty classrooms num_days num_slots_per_day
                     min_hours_day max_hours_day @
                   adj_constraints num_batches num_days num_slots_per_day @
                   free_constraints num_batches num_days num_slots_per_day @
                   long_constraints num_batches num_days num_slots_per_day @
                   pref_constraints faculty faculty_list num_batches num_subjects num_classrooms
                     num_days num_slots_per_day late,
                 objective =
                   objective_terms num_batches num_days num_slots_per_day
                     (pref_vars faculty faculty_list num_days num_slots_per_day late)\<rparr>)"

text \<open>
  Lines 1199-1206: a cell starts as \<^verbatim>\<open>None\<close> and is overwritten by every true \<^verbatim>\<open>x\<close> of its
  batch and slot, in the order of the three inner loops.
\<close>

definition decode_cell ::
  "(tvar \<Rightarrow> int) \<Rightarrow> string list \<Rightarrow> string list \<Rightarrow> string list \<Rightarrow> nat \<Rightarrow> nat \<Rightarrow>
   (string \<times> string \<times> string) option" where
  "decode_cell Value all_subjects faculty_list classroom_list b t =
     foldl (\<lambda>cell (s, f, c).
              if Value (X b s f c t) \<noteq> 0
              then Some (all_subjects ! s, faculty_list ! f, classroom_list ! c) else cell)
       None
       [(s, f, c). s \<leftarrow> [0..<length all_subjects], f \<leftarrow> [0..<length faculty_list],
                   c \<leftarrow> [0..<length classroom_list]]"

definition decode_schedule ::
  "(tvar \<Rightarrow> int) \<Rightarrow> string list \<Rightarrow> string list \<Rightarrow> string list \<Rightarrow> nat \<Rightarrow> nat \<Rightarrow>
   (string \<times> string \<times> string) option list list" where
  "decode_schedule Value all_subjects faculty_list classroom_list num_batches total_slots =
     [[decode_cell Value all_subjects faculty_list classroom_list b t. t \<leftarrow> [0..<total_slots]].
      b \<leftarrow> [0..<num_batches]]"

text \<open>Lines 1208-1214: one hour more for the faculty member of every occupied cell.\<close>

definition count_workloads ::
  "string list \<Rightarrow> (string \<times> string \<times> string) option list list \<Rightarrow> (string \<times> int) list" where
  "count_workloads faculty_list sched =
     foldl (\<lambda>w cell.
              case cell of
                None \<Rightarrow> w
              | Some (subj, fac, room) \<Rightarrow>
                  map (\<lambda>(k, n). if k = fac then (k, n + 1) else (k, n)) w)
       [(f, 0). f \<leftarrow> faculty_list] (concat sched)"

record timetable =
  res_schedule :: "(string \<times> string \<times> string) option list list"
  res_batch_list :: "string list"
  res_workloads :: "(string \<times> int) list"

definition no_solution_message :: string where
  "no_solution_message =
     ''No feasible solution found. Check constraints and parameters (e.g., min/max hours per day).''"

definition solve_timetable_model ::
  "app_state \<Rightarrow> tvar solver \<Rightarrow> (string \<times> batch) list \<Rightarrow> (string \<times> faculty_data) list \<Rightarrow>
   (string \<times> classroom) list \<Rightarrow> int \<Rightarrow> int \<Rightarrow> int \<Rightarrow> error + timetable" where
  "solve_timetable_model self Solve batches faculty classrooms time_limit min_hours_day
       max_hours_day =
    (case build_model self batches faculty classrooms min_hours_day max_hours_day of
       Inl e \<Rightarrow> Inl e
     | Inr model \<Rightarrow>
         (let (status, Value) = Solve time_limit model in
          if status \<notin> {OPTIMAL, FEASIBLE} then Inl (RuntimeError no_solution_message)
          else
            (let batch_list = sort (map fst batches);
                 faculty_list = sort (map fst faculty);
                 sched = decode_schedule Value (all_subjects_of batches) faculty_list
                           (sort (map fst classrooms)) (length batch_list)
                           (length (get_current_days self) * length (self_slots self))
             in Inr \<lparr>res_schedule = sched, res_batch_list = batch_list,
                     res_workloads = count_workloads faculty_list sched\<rparr>)))"


section \<open>TT_prototype.py: \<^verbatim>\<open>solve_timetable\<close>\<close>

text \<open>
  The prototype has no faculty members or classrooms of its own: a subject is a row
  (name, weekly hours, number of faculty), rooms are a count, and every batch takes every
  subject. \<open>PX b s t\<close> is \<^verbatim>\<open>x[(b, s, t)]\<close> and \<open>PY b t\<close> is \<^verbatim>\<open>y[(b, t)]\<close>.
\<close>

type_synonym subject_row = "string \<times> int \<times> int"

datatype pvar =
    PX nat nat nat
  | PY nat nat
  | Day_active nat nat
  | Sameday_penalty nat nat nat
  | Slot_filled nat
  | Full_slot nat
  | PAdj nat nat nat

definition SLOTS :: "string list" where
  "SLOTS = [''9-10'', ''10-11'', ''11-12'', ''12-1'', ''2-3'', ''3-4'', ''4-5'', ''5-6'']"

definition WEIGHT_FULL_SLOT :: int where "WEIGHT_FULL_SLOT = 1000"
definition PROTO_WEIGHT_ADJACENCY :: int where "PROTO_WEIGHT_ADJACENCY = 5"
definition WEIGHT_PENALTY_SAME_DAY_SUBJECT :: int where "WEIGHT_PENALTY_SAME_DAY_SUBJECT = 10"
definition PROTO_WEIGHT_PENALTY_FREE_DAY :: int where "PROTO_WEIGHT_PENALTY_FREE_DAY = 2000"

subsection \<open>Lines 65-86: the feasibility checks\<close>

definition required_per_batch :: "subject_row list \<Rightarrow> int" where
  "required_per_batch subjects = sum_list (map (\<lambda>(name, hours, faculty_count). hours) subjects)"

definition feasibility_checks ::
  "subject_row list \<Rightarrow> int \<Rightarrow> int \<Rightarrow> int \<Rightarrow> int \<Rightarrow> int \<Rightarrow> string list \<Rightarrow> string list \<Rightarrow>
   error option" where
  "feasibility_checks subjects num_batches num_rooms max_per_day max_per_week min_per_day
       days slots =
    (let num_slots_per_day = int (length slots);
         total_slots = int (length days) * num_slots_per_day;
         total_required_all_batches = required_per_batch subjects * num_batches;
         max_possible_with_rooms = num_rooms * total_slots
     in if max_per_day > num_slots_per_day
        then Some (ValueError (''Max hours/day ('' @ str_int max_per_day @
                     '') exceeds available slots per day ('' @ str_int num_slots_per_day @ '').''))
        else if max_per_week > total_slots
        then Some (ValueError (''Max hours/week ('' @ str_int max_per_week @
                     '') exceeds total slots in the week ('' @ str_int total_slots @ '').''))
        else if min_per_day > max_per_day
        then Some (ValueError (''Min hours/day ('' @ str_int min_per_day @
                     '') cannot be greater than Max hours/day ('' @ str_int max_per_day @ '').''))
        else if required_per_batch subjects > max_per_week
        then Some (ValueError (''Total required hours per batch ('' @
                     str_int (required_per_batch subjects) @
                     '') exceeds the weekly limit ('' @ str_int max_per_week @ '').''))
        else if total_required_all_batches > max_possible_with_rooms
        then Some (ValueError (''Not enough rooms. Required class-slots ('' @
                     str_int total_required_all_batches @
                     '') exceed total room capacity ('' @ str_int max_possible_with_rooms @ '').''))
        else None)"

subsection \<open>Lines 88-191: the model\<close>

definition px_vars :: "nat \<Rightarrow> nat \<Rightarrow> nat \<Rightarrow> pvar list" where
  "px_vars num_batches num_subjects total_slots =
     [PX b s_idx t. b \<leftarrow> [0..<num_batches], s_idx \<leftarrow> [0..<num_subjects], t \<leftarrow> [0..<total_slots]]"

definition py_vars :: "nat \<Rightarrow> nat \<Rightarrow> pvar list" where
  "py_vars num_batches total_slots = [PY b t. b \<leftarrow> [0..<num_batches], t \<leftarrow> [0..<total_slots]]"

definition py_constraints :: "nat \<Rightarrow> nat \<Rightarrow> nat \<Rightarrow> pvar constr list" where
  "py_constraints num_batches num_subjects total_slots =
     [Linear (Sum [PX b s_idx t. s_idx \<leftarrow> [0..<num_subjects]]) EQ (Sum [PY b t]) [].
      b \<leftarrow> [0..<num_batches], t \<leftarrow> [0..<total_slots]]"

definition p_daily_hours :: "nat \<Rightarrow> nat \<Rightarrow> nat \<Rightarrow> pvar linexpr" where
  "p_daily_hours num_slots_per_day b d =
     Sum [PY b t. t \<leftarrow> [d * num_slots_per_day + k. k \<leftarrow> [0..<num_slots_per_day]]]"

definition active_vars :: "nat \<Rightarrow> nat \<Rightarrow> pvar list" where
  "active_vars num_batches num_days = [Day_active b d. b \<leftarrow> [0..<num_batches], d \<leftarrow> [0..<num_days]]"

definition p_day_constraints :: "nat \<Rightarrow> nat \<Rightarrow> nat \<Rightarrow> int \<Rightarrow> int \<Rightarrow> pvar constr list" where
  "p_day_constraints num_batches num_days num_slots_per_day max_per_day min_per_day =
     concat [[Linear (p_daily_hours num_slots_per_day b d) LE (Const max_per_day) [],
              Linear (p_daily_hours num_slots_per_day b d) GE (Const 1) [Pos (Day_active b d)],
              Linear (p_daily_hours num_slots_per_day b d) EQ (Const 0) [Neg (Day_active b d)]] @
             (if min_per_day > 0
              then [Linear (p_daily_hours num_slots_per_day b d) GE (Const min_per_day)
                           [Pos (Day_active b d)]]
              else []).
             b \<leftarrow> [0..<num_batches], d \<leftarrow> [0..<num_days]]"

definition week_constraints :: "nat \<Rightarrow> nat \<Rightarrow> int \<Rightarrow> pvar constr list" where
  "week_constraints num_batches total_slots max_per_week =
     [Linear (Sum [PY b t. t \<leftarrow> [0..<total_slots]]) LE (Const max_per_week) [].
      b \<leftarrow> [0..<num_batches]]"

definition subject_hours_constraints :: "subject_row list \<Rightarrow> nat \<Rightarrow> nat \<Rightarrow> pvar constr list" where
  "subject_hours_constraints subjects num_batches total_slots =
     [Linear (Sum [PX b s_idx t. t \<leftarrow> [0..<total_slots]]) EQ (Const hours) [].
      b \<leftarrow> [0..<num_batches], (s_idx, (name, hours, faculty_count)) \<leftarrow> enumerate 0 subjects]"

definition room_constraints :: "nat \<Rightarrow> nat \<Rightarrow> int \<Rightarrow> pvar constr list" where
  "room_constraints num_batches total_slots num_rooms =
     [Linear (Sum [PY b t. b \<leftarrow> [0..<num_batches]]) LE (Const num_rooms) [].
      t \<leftarrow> [0..<total_slots]]"

definition faculty_count_constraints :: "subject_row list \<Rightarrow> nat \<Rightarrow> nat \<Rightarrow> pvar constr list" where
  "faculty_count_constraints subjects num_batches total_slots =
     [Linear (Sum [PX b s_idx t. b \<leftarrow> [0..<num_batches]]) LE (Const faculty_count) [].
      (s_idx, (name, hours, faculty_count)) \<leftarrow> enumerate 0 subjects, t \<leftarrow> [0..<total_slots]]"

definition sameday_keys :: "subject_row list \<Rightarrow> nat \<Rightarrow> nat \<Rightarrow> (nat \<times> nat \<times> nat) list" where
  "sameday_keys subjects num_batches num_days =
     [(b, s_idx, d). b \<leftarrow> [0..<num_batches],
                     (s_idx, (name, hours, faculty_count)) \<leftarrow> enumerate 0 subjects,
                     hours \<le> int num_days, d \<leftarrow> [0..<num_days]]"

definition sameday_constraints :: "subject_row list \<Rightarrow> nat \<Rightarrow> nat \<Rightarrow> nat \<Rightarrow> pvar constr list" where
  "sameday_constraints subjects num_batches num_days num_slots_per_day =
     [Linear (Sum [Sameday_penalty b s_idx d]) GE
             (LinExpr [PX b s_idx (d * num_slots_per_day + k). k \<leftarrow> [0..<num_slots_per_day]] (- 1)) [].
      (b, s_idx, d) \<leftarrow> sameday_keys subjects num_batches num_days]"

definition slot_filled_constraints :: "nat \<Rightarrow> nat \<Rightarrow> pvar constr list" where
  "slot_filled_constraints num_batches total_slots =
     [Linear (Sum [Slot_filled t]) EQ (Sum [PY b t. b \<leftarrow> [0..<num_batches]]) [].
      t \<leftarrow> [0..<total_slots]]"

definition full_slot_constraints :: "nat \<Rightarrow> int \<Rightarrow> pvar constr list" where
  "full_slot_constraints total_slots num_rooms =
     concat [[Linear (Sum [Slot_filled t]) EQ (Const num_rooms) [Pos (Full_slot t)],
              Linear (Sum [Slot_filled t]) NE (Const num_rooms) [Neg (Full_slot t)]].
             t \<leftarrow> [0..<total_slots]]"

definition padj_keys :: "nat \<Rightarrow> nat \<Rightarrow> nat \<Rightarrow> (nat \<times> nat \<times> nat) list" where
  "padj_keys num_batches num_days num_slots_per_day =
     [(b, d, k). b \<leftarrow> [0..<num_batches], d \<leftarrow> [0..<num_days], k \<leftarrow> [0..<num_slots_per_day - 1]]"

definition padj_constraints :: "nat \<Rightarrow> nat \<Rightarrow> nat \<Rightarrow> pvar constr list" where
  "padj_constraints num_batches num_days num_slots_per_day =
     concat [[BoolAnd [Pos (PY b (d * num_slots_per_day + k)),
                       Pos (PY b (d * num_slots_per_day + k + 1))] [Pos (PAdj b d k)],
              BoolOr [Neg (PY b (d * num_slots_per_day + k)),
                      Neg (PY b (d * num_slots_per_day + k + 1))] [Neg (PAdj b d k)]].
             (b, d, k) \<leftarrow> padj_keys num_batches num_days num_slots_per_day]"

definition p_build_model ::
  "subject_row list \<Rightarrow> int \<Rightarrow> int \<Rightarrow> int \<Rightarrow> int \<Rightarrow> int \<Rightarrow> string list \<Rightarrow> string list \<Rightarrow>
   pvar cp_model" where
  "p_build_model subjects num_batches num_rooms max_per_day max_per_week min_per_day days slots =
    (let nb = nat num_batches;
         num_subjects = length subjects;
         num_days = length days;
         num_slots_per_day = length slots;
         total_slots = num_days * num_slots_per_day
     in \<lparr>bool_vars =
            px_vars nb num_subjects total_slots @ py_vars nb total_slots @
            active_vars nb num_days @
            [Full_slot t. t \<leftarrow> [0..<total_slots]] @
            [PAdj b d k. (b, d, k) \<leftarrow> padj_keys nb num_days num_slots_per_day],
          int_vars =
            [(Sameday_penalty b s_idx d, 0, int num_slots_per_day - 1).
             (b, s_idx, d) \<leftarrow> sameday_keys subjects nb num_days] @
            [(Slot_filled t, 0, num_rooms). t \<leftarrow> [0..<total_slots]],
          constraints =
            py_constraints nb num_subjects total_slots @
            p_day_constraints nb num_days num_slots_per_day max_per_day min_per_day @
            week_constraints nb total_slots max_per_week @
            subject_hours_constraints subjects nb total_slots @
            room_constraints nb total_slots num_rooms @
            faculty_count_constraints subjects nb total_slots @
            sameday_constraints subjects nb num_days num_slots_per_day @
            slot_filled_constraints nb total_slots @
            full_slot_constraints total_slots num_rooms @
            padj_constraints nb num_days num_slots_per_day,
          objective =
            [(WEIGHT_FULL_SLOT, Pos (Full_slot t)). t \<leftarrow> [0..<total_slots]] @
            [(PROTO_WEIGHT_ADJACENCY, Pos (PAdj b d k)).
             (b, d, k) \<leftarrow> padj_keys nb num_days num_slots_per_day] @
            [(- WEIGHT_PENALTY_SAME_DAY_SUBJECT, Pos (Sameday_penalty b s_idx d)).
             (b, s_idx, d) \<leftarrow> sameday_keys subjects nb num_days] @
            [(- PROTO_WEIGHT_PENALTY_FREE_DAY, Neg v). v \<leftarrow> active_vars nb num_days]\<rparr>)"

subsection \<open>Lines 193-219: the solve and the decoding\<close>

definition p_decode_row :: "(pvar \<Rightarrow> int) \<Rightarrow> subject_row list \<Rightarrow> nat \<Rightarrow> nat \<Rightarrow> string list" where
  "p_decode_row Value subjects total_slots b =
     foldl (\<lambda>row (s_idx, name, t). if Value (PX b s_idx t) = 1 then row[t := name] else row)
       (replicate total_slots ''Free'')
       [(s_idx, name, t). (s_idx, (name, hours, faculty_count)) \<leftarrow> enumerate 0 subjects,
                          t \<leftarrow> [0..<total_slots]]"

definition p_room_assignments :: "(pvar \<Rightarrow> int) \<Rightarrow> nat \<Rightarrow> nat \<Rightarrow> (nat \<times> nat) list" where
  "p_room_assignments Value num_batches t =
     [(idx + 1, b). (idx, b) \<leftarrow> enumerate 0 (filter (\<lambda>b. Value (PY b t) = 1) [0..<num_batches])]"

definition p_no_solution_message :: string where
  "p_no_solution_message = ''Solver found no feasible solution within time limit.''"

definition solve_timetable ::
  "pvar solver \<Rightarrow> subject_row list \<Rightarrow> int \<Rightarrow> int \<Rightarrow> int \<Rightarrow> int \<Rightarrow> int \<Rightarrow> string list \<Rightarrow>
   string list \<Rightarrow> int \<Rightarrow>
   error + ((nat \<times> string list) list \<times> (nat \<times> (nat \<times> nat) list) list)" where
  "solve_timetable Solve subjects num_batches num_rooms max_per_day max_per_week min_per_day
       days slots time_limit =
    (case feasibility_checks subjects num_batches num_rooms max_per_day max_per_week min_per_day
            days slots of
       Some e \<Rightarrow> Inl e
     | None \<Rightarrow>
         (let model = p_build_model subjects num_batches num_rooms max_per_day max_per_week
                        min_per_day days slots;
              (status, Value) = Solve time_limit model;
              total_slots = length days * length slots
          in if status \<notin> {OPTIMAL, FEASIBLE} then Inl (RuntimeError p_no_solution_message)
             else Inr ([(b, p_decode_row Value subjects total_slots b). b \<leftarrow> [0..<nat num_batches]],
                       [(t, p_room_assignments Value (nat num_batches) t).
                        t \<leftarrow> [0..<total_slots]])))"

section \<open>Concrete inputs\<close>

text \<open>
  A time-slot form asking for the hours 9 to 12 with lunch at 10, while the registry holds a
  classroom that was stored when the day had seven slots; and the same form with an empty
  hour range.
\<close>

definition form_9_12 :: app_state where
  "form_9_12 =
     \<lparr>self_slots = DEFAULT_SLOTS, start_hour_var = 9, end_hour_var = 12, lunch_hour_var = 10,
      min_hours_day_var = 1, max_hours_day_var = 5, class_max_daily_hours_var = 7,
      min_hours_spinbox_to = 7, max_hours_spinbox_to = 7, class_max_hours_spinbox_to = 7,
      saturday_var = False,
      self_classrooms =
        [(''R1'', \<lparr>capacity = 1, ctype = ''Lecture'', max_daily_hours = Some 7\<rparr>)]\<rparr>"

definition form_9_9 :: app_state where
  "form_9_9 = form_9_12\<lparr>end_hour_var := 9\<rparr>"

text \<open>The invariant of the classroom registry that the specification names.\<close>

definition classroom_caps_within_day :: "app_state \<Rightarrow> bool" where
  "classroom_caps_within_day st \<longleftrightarrow>
     (\<forall>(name, room) \<in> set (self_classrooms st).
        case max_daily_hours room of
          None \<Rightarrow> True
        | Some max_h \<Rightarrow> max_h \<le> int (length (self_slots st)))"

text \<open>
  One batch with one two-hour lecture, one faculty member assigned to it, one lecture room,
  a week of five days with two slots each; and values for the variables that put both
  hours on Monday.
\<close>

definition self_w :: app_state where
  "self_w =
     \<lparr>self_slots = [''9-10'', ''10-11''], start_hour_var = 9, end_hour_var = 11,
      lunch_hour_var = 13, min_hours_day_var = 1, max_hours_day_var = 2,
      class_max_daily_hours_var = 2, min_hours_spinbox_to = 2, max_hours_spinbox_to = 2,
      class_max_hours_spinbox_to = 2, saturday_var = False, self_classrooms = []\<rparr>"

definition math_w :: subject_info where
  "math_w = \<lparr>subject_hours = Some 2, subject_type = Some ''Lecture''\<rparr>"

definition batch_w :: batch where
  "batch_w = \<lparr>year = ''1'', branch = ''CS'', batch_subjects = [(''Math'', math_w)]\<rparr>"

definition batches_w :: "(string \<times> batch) list" where
  "batches_w = [(''B1'', batch_w)]"

definition faculty_w :: "(string \<times> faculty_data) list" where
  "faculty_w = [(''F1'', \<lparr>assignments = [(''Math'', {''B1''})], prefers_morning = False\<rparr>)]"

definition classrooms_w :: "(string \<times> classroom) list" where
  "classrooms_w = [(''R1'', \<lparr>capacity = 1, ctype = ''Lecture'', max_daily_hours = Some 2\<rparr>)]"

fun value_w :: "tvar \<Rightarrow> int" where
  "value_w (X b s f c t) = (if t < 2 then 1 else 0)"
| "value_w (Y b t) = (if t < 2 then 1 else 0)"
| "value_w (Day_has_class b d) = (if d = 0 then 1 else 0)"
| "value_w (Adj b d k) = 0"
| "value_w (Free_day b d) = 0"
| "value_w (Long_stretch b d k) = 0"
| "value_w (Pref f t) = 0"

definition result_w :: timetable where
  "result_w =
     \<lparr>res_schedule = [[Some (''Math'', ''F1'', ''R1''), Some (''Math'', ''F1'', ''R1''),
                        None, None, None, None, None, None, None, None]],
      res_batch_list = [''B1''],
      res_workloads = [(''F1'', 2)]\<rparr>"

text \<open>The same batch when the only faculty member teaches Math to another batch.\<close>

definition faculty_elsewhere :: "(string \<times> faculty_data) list" where
  "faculty_elsewhere =
     [(''F1'', \<lparr>assignments = [(''Math'', {''B2''})], prefers_morning = False\<rparr>)]"

text \<open>
  Two lecture rooms, and an engine that answers with a fixed status and fixed values
  whatever the model is; \<open>value_double\<close> sets the variables of both rooms for batch 0 in
  slot 0.
\<close>

definition classrooms_2 :: "(string \<times> classroom) list" where
  "classrooms_2 =
     [(''R1'', \<lparr>capacity = 1, ctype = ''Lecture'', max_daily_hours = Some 2\<rparr>),
      (''R2'', \<lparr>capacity = 1, ctype = ''Lecture'', max_daily_hours = Some 2\<rparr>)]"

definition fixed_engine :: "cp_status \<Rightarrow> ('v \<Rightarrow> int) \<Rightarrow> 'v solver" where
  "fixed_engine status val lim m = (status, val)"

fun value_double :: "tvar \<Rightarrow> int" where
  "value_double (X b s f c t) = (if t = 0 then 1 else 0)"
| "value_double (Y b t) = (if t = 0 then 1 else 0)"
| "value_double (Day_has_class b d) = (if d = 0 then 1 else 0)"
| "value_double (Adj b d k) = 0"
| "value_double (Free_day b d) = 0"
| "value_double (Long_stretch b d k) = 0"
| "value_double (Pref f t) = 0"

definition result_double :: timetable where
  "result_double =
     \<lparr>res_schedule = [[Some (''Math'', ''F1'', ''R2''), None, None, None, None,
                        None, None, None, None, None]],
      res_batch_list = [''B1''],
      res_workloads = [(''F1'', 1)]\<rparr>"

text \<open>
  A day of four slots, the last starting at 12, a four-hour lecture and a faculty member who
  prefers mornings. \<open>value_lax\<close> puts all four hours on Monday and leaves every indicator of
  the objective at 0.
\<close>

definition self_4 :: app_state where
  "self_4 = self_w\<lparr>self_slots := [''9-10'', ''10-11'', ''11-12'', ''12-13'']\<rparr>"

definition batches_4 :: "(string \<times> batch) list" where
  "batches_4 =
     [(''B1'', \<lparr>year = ''1'', branch = ''CS'',
               batch_subjects =
                 [(''Math'', \<lparr>subject_hours = Some 4, subject_type = Some ''Lecture''\<rparr>)]\<rparr>)]"

definition faculty_4 :: "(string \<times> faculty_data) list" where
  "faculty_4 = [(''F1'', \<lparr>assignments = [(''Math'', {''B1''})], prefers_morning = True\<rparr>)]"

definition classrooms_4 :: "(string \<times> classroom) list" where
  "classrooms_4 = [(''R1'', \<lparr>capacity = 1, ctype = ''Lecture'', max_daily_hours = Some 4\<rparr>)]"

fun value_lax :: "tvar \<Rightarrow> int" where
  "value_lax (X b s f c t) = (if t < 4 then 1 else 0)"
| "value_lax (Y b t) = (if t < 4 then 1 else 0)"
| "value_lax (Day_has_class b d) = (if d = 0 then 1 else 0)"
| "value_lax (Adj b d k) = 0"
| "value_lax (Free_day b d) = 0"
| "value_lax (Long_stretch b d k) = 0"
| "value_lax (Pref f t) = 0"

definition result_4 :: timetable where
  "result_4 =
     \<lparr>res_schedule = [replicate 4 (Some (''Math'', ''F1'', ''R1'')) @ replicate 16 None],
      res_batch_list = [''B1''],
      res_workloads = [(''F1'', 4)]\<rparr>"

text \<open>The prototype on one batch, one room and one two-hour subject, both hours on Monday.\<close>

definition subjects_w :: "subject_row list" where
  "subjects_w = [(''Math'', 2, 1)]"

definition slots_w :: "string list" where
  "slots_w = [''9-10'', ''10-11'']"

fun pvalue_w :: "pvar \<Rightarrow> int" where
  "pvalue_w (PX b s t) = (if t < 2 then 1 else 0)"
| "pvalue_w (PY b t) = (if t < 2 then 1 else 0)"
| "pvalue_w (Day_active b d) = (if d = 0 then 1 else 0)"
| "pvalue_w (Sameday_penalty b s d) = (if d = 0 then 1 else 0)"
| "pvalue_w (Slot_filled t) = (if t < 2 then 1 else 0)"
| "pvalue_w (Full_slot t) = (if t < 2 then 1 else 0)"
| "pvalue_w (PAdj b d k) = (if d = 0 then 1 else 0)"

definition schedule_w :: "(nat \<times> string list) list" where
  "schedule_w = [(0, [''Math'', ''Math'', ''Free'', ''Free'', ''Free'', ''Free'', ''Free'',
                      ''Free'', ''Free'', ''Free''])]"

definition rooms_w :: "(nat \<times> (nat \<times> nat) list) list" where
  "rooms_w = [(0, [(1, 0)]), (1, [(1, 0)]), (2, []), (3, []), (4, []), (5, []), (6, []),
              (7, []), (8, []), (9, [])]"

definition model_w :: "tvar cp_model" where
  "model_w = projr (build_model self_w batches_w faculty_w classrooms_w 1 2)"

definition pmodel_w :: "pvar cp_model" where
  "pmodel_w = p_build_model subjects_w 1 1 2 2 1 DAYS slots_w"

section \<open>Sums, counts and folds\<close>

lemma sum_list_upt: "sum_list (map f [0..<n]) = (\<Sum>i<n. (f i :: int))"
  by (induction n) simp_all

lemma sum_list_concat: "sum_list (concat xss) = sum_list (map sum_list xss)"
  by (induction xss) simp_all

lemma sum_list_01_count:
  "\<forall>v \<in> set vs. val v = 0 \<or> val v = (1::int) \<Longrightarrow>
   sum_list (map val vs) = int (length (filter (\<lambda>v. val v \<noteq> 0) vs))"
  by (induction vs) auto

lemma filter_le_one_unique:
  "length (filter Q vs) \<le> 1 \<Longrightarrow> x \<in> set vs \<Longrightarrow> Q x \<Longrightarrow> y \<in> set vs \<Longrightarrow> Q y \<Longrightarrow> x = y"
proof -
  assume a: "length (filter Q vs) \<le> 1" "x \<in> set vs" "Q x" "y \<in> set vs" "Q y"
  then have "x \<in> set (filter Q vs)" "y \<in> set (filter Q vs)" by simp_all
  with a(1) show ?thesis by (cases "filter Q vs") auto
qed

lemma foldl_last_match:
  "foldl (\<lambda>cell x. if P x then Some (g x) else cell) a xs =
     (if filter P xs = [] then a else Some (g (last (filter P xs))))"
  by (induction xs arbitrary: a) auto

lemma count_filter_upt:
  "int (length (filter R (map g [0..<n]))) = (\<Sum>t<n. if R (g t) then 1 else 0)"
  by (induction n) simp_all

lemma enumerate_upt: "enumerate 0 xs = map (\<lambda>i. (i, xs ! i)) [0..<length xs]"
  by (rule nth_equalityI) (simp_all add: nth_enumerate_eq)


section \<open>Solutions of the model of \<^verbatim>\<open>solve_timetable_model\<close>\<close>

lemma build_model_parts:
  assumes "build_model self batches faculty classrooms mn mx = Inr m"
  shows "set (x_vars (length batches) (length (all_subjects_of batches)) (length faculty)
               (length classrooms) (length (get_current_days self) * length (self_slots self)))
         \<subseteq> set (bool_vars m)"
    and "set (hard_constraints batches faculty classrooms (length (get_current_days self))
               (length (self_slots self)) mn mx) \<subseteq> set (constraints m)"
  using assms by (auto simp: build_model_def Let_def split: sum.splits)

lemma x_vars_mem:
  "b < nb \<Longrightarrow> s < ns \<Longrightarrow> f < nf \<Longrightarrow> c < nc \<Longrightarrow> t < ts \<Longrightarrow> X b s f c t \<in> set (x_vars nb ns nf nc ts)"
  by (force simp: x_vars_def)

lemma batch_slot_sem:
  assumes "\<forall>c \<in> set (batch_slot_constraints nb ns nf nc ts). holds val c" "b < nb" "t < ts"
  shows "sum_list (map val [X b s f c t. s \<leftarrow> [0..<ns], f \<leftarrow> [0..<nf], c \<leftarrow> [0..<nc]]) \<le> 1"
proof -
  have "Linear (Sum [X b s f c t. s \<leftarrow> [0..<ns], f \<leftarrow> [0..<nf], c \<leftarrow> [0..<nc]]) LE (Const 1) []
        \<in> set (batch_slot_constraints nb ns nf nc ts)"
    using assms(2,3) by (force simp: batch_slot_constraints_def)
  with assms(1) have "holds val (Linear (Sum [X b s f c t. s \<leftarrow> [0..<ns], f \<leftarrow> [0..<nf], c \<leftarrow> [0..<nc]]) LE (Const 1) [])"
    by blast
  then show ?thesis by simp
qed

lemma exact_hours_sem:
  assumes "\<forall>c \<in> set (exact_hours_constraints batches bl subs nf nc ts). holds val c"
    and "b < length bl" "s < length subs"
    and "map_of (batch_subjects (the (map_of batches (bl ! b)))) (subs ! s) = Some info"
  shows "sum_list (map val [X b s f c t. f \<leftarrow> [0..<nf], c \<leftarrow> [0..<nc], t \<leftarrow> [0..<ts]]) = required_hours info"
proof -
  have "Linear (Sum [X b s f c t. f \<leftarrow> [0..<nf], c \<leftarrow> [0..<nc], t \<leftarrow> [0..<ts]]) EQ (Const (required_hours info)) []
        \<in> set (exact_hours_constraints batches bl subs nf nc ts)"
    using assms(2-4) by (force simp: exact_hours_constraints_def in_set_enumerate_eq)
  with assms(1) have "holds val (Linear (Sum [X b s f c t. f \<leftarrow> [0..<nf], c \<leftarrow> [0..<nc], t \<leftarrow> [0..<ts]]) EQ (Const (required_hours info)) [])"
    by blast
  then show ?thesis by simp
qed

lemma in_set_nonempty: "x \<in> set ys \<Longrightarrow> ys \<noteq> []"
  by auto

lemma triples_mem:
  "(s, f, c) \<in> set [(s, f, c). s \<leftarrow> [0..<ns], f \<leftarrow> [0..<nf], c \<leftarrow> [0..<nc]] \<longleftrightarrow>
   s < ns \<and> f < nf \<and> c < nc"
  by (auto simp: image_iff)

lemma cell_vars_map:
  "[X b s f c t. s \<leftarrow> [0..<ns], f \<leftarrow> [0..<nf], c \<leftarrow> [0..<nc]] =
   map (\<lambda>(s, f, c). X b s f c t) [(s, f, c). s \<leftarrow> [0..<ns], f \<leftarrow> [0..<nf], c \<leftarrow> [0..<nc]]"
  by (simp add: map_concat comp_def)

lemma cell_sum_nested:
  "sum_list (map val [X b s f c t. s \<leftarrow> [0..<ns], f \<leftarrow> [0..<nf], c \<leftarrow> [0..<nc]]) =
   (\<Sum>s<ns. \<Sum>f<nf. \<Sum>c<nc. (val (X b s f c t) :: int))"
  by (simp add: map_concat sum_list_concat comp_def sum_list_upt)

lemma subject_sum_nested:
  "sum_list (map val [X b s f c t. f \<leftarrow> [0..<nf], c \<leftarrow> [0..<nc], t \<leftarrow> [0..<ts]]) =
   (\<Sum>t<ts. \<Sum>f<nf. \<Sum>c<nc. (val (X b s f c t) :: int))"
proof -
  have "sum_list (map val [X b s f c t. f \<leftarrow> [0..<nf], c \<leftarrow> [0..<nc], t \<leftarrow> [0..<ts]]) =
        (\<Sum>f<nf. \<Sum>c<nc. \<Sum>t<ts. val (X b s f c t))"
    by (simp add: map_concat sum_list_concat comp_def sum_list_upt)
  also have "\<dots> = (\<Sum>f<nf. \<Sum>t<ts. \<Sum>c<nc. val (X b s f c t))"
    by (rule sum.cong[OF refl]) (rule sum.swap)
  also have "\<dots> = (\<Sum>t<ts. \<Sum>f<nf. \<Sum>c<nc. val (X b s f c t))"
    by (rule sum.swap)
  finally show ?thesis .
qed

lemma decode_cell_last:
  "decode_cell val subs fl cl b t =
    (let ys = filter (\<lambda>(s, f, c). val (X b s f c t) \<noteq> 0)
                [(s, f, c). s \<leftarrow> [0..<length subs], f \<leftarrow> [0..<length fl], c \<leftarrow> [0..<length cl]]
     in if ys = [] then None
        else Some (case last ys of (s, f, c) \<Rightarrow> (subs ! s, fl ! f, cl ! c)))"
proof -
  have "(\<lambda>cell (s, f, c). if val (X b s f c t) \<noteq> 0 then Some (subs ! s, fl ! f, cl ! c) else cell) =
        (\<lambda>cell x. if (\<lambda>(s, f, c). val (X b s f c t) \<noteq> 0) x
                   then Some ((\<lambda>(s, f, c). (subs ! s, fl ! f, cl ! c)) x) else cell)"
    by (auto simp: fun_eq_iff)
  then show ?thesis
    unfolding decode_cell_def Let_def by (simp only: foldl_last_match)
qed

text \<open>One cell of the schedule under the booking constraint of its batch and slot.\<close>

lemma cell_unique:
  fixes val :: "tvar \<Rightarrow> int"
  assumes bool: "\<And>s f c. s < length subs \<Longrightarrow> f < length fl \<Longrightarrow> c < length cl \<Longrightarrow>
                  val (X b s f c t) = 0 \<or> val (X b s f c t) = 1"
    and one: "sum_list (map val [X b s f c t. s \<leftarrow> [0..<length subs], f \<leftarrow> [0..<length fl],
                                 c \<leftarrow> [0..<length cl]]) \<le> 1"
    and x: "s < length subs" "f < length fl" "c < length cl" "val (X b s f c t) \<noteq> 0"
    and y: "s' < length subs" "f' < length fl" "c' < length cl" "val (X b s' f' c' t) \<noteq> 0"
  shows "s' = s \<and> f' = f \<and> c' = c"
proof -
  let ?vs = "[X b s f c t. s \<leftarrow> [0..<length subs], f \<leftarrow> [0..<length fl], c \<leftarrow> [0..<length cl]]"
  have mem: "\<And>s f c. s < length subs \<Longrightarrow> f < length fl \<Longrightarrow> c < length cl \<Longrightarrow> X b s f c t \<in> set ?vs"
    by force
  have "\<forall>v \<in> set ?vs. val v = 0 \<or> val v = 1"
    using bool by auto
  then have "sum_list (map val ?vs) = int (length (filter (\<lambda>v. val v \<noteq> 0) ?vs))"
    by (rule sum_list_01_count)
  with one have "length (filter (\<lambda>v. val v \<noteq> 0) ?vs) \<le> 1" by simp
  then have "X b s f c t = X b s' f' c' t"
    using mem[OF x(1-3)] x(4) mem[OF y(1-3)] y(4) by (rule filter_le_one_unique)
  then show ?thesis by simp
qed

lemma decode_cell_of_true:
  fixes val :: "tvar \<Rightarrow> int"
  assumes bool: "\<And>s f c. s < length subs \<Longrightarrow> f < length fl \<Longrightarrow> c < length cl \<Longrightarrow>
                  val (X b s f c t) = 0 \<or> val (X b s f c t) = 1"
    and one: "sum_list (map val [X b s f c t. s \<leftarrow> [0..<length subs], f \<leftarrow> [0..<length fl],
                                 c \<leftarrow> [0..<length cl]]) \<le> 1"
    and x: "s < length subs" "f < length fl" "c < length cl" "val (X b s f c t) \<noteq> 0"
  shows "decode_cell val subs fl cl b t = Some (subs ! s, fl ! f, cl ! c)"
proof -
  let ?tr = "[(s, f, c). s \<leftarrow> [0..<length subs], f \<leftarrow> [0..<length fl], c \<leftarrow> [0..<length cl]]"
  let ?ys = "filter (\<lambda>(s, f, c). val (X b s f c t) \<noteq> 0) ?tr"
  have "(s, f, c) \<in> set ?tr" using x(1-3) by (simp only: triples_mem)
  then have "(s, f, c) \<in> set ?ys" using x(4) by simp
  then have ne: "?ys \<noteq> []" by (rule in_set_nonempty)
  then have "last ?ys \<in> set ?ys" by (rule last_in_set)
  moreover obtain s' f' c' where l: "last ?ys = (s', f', c')" by (cases "last ?ys") auto
  ultimately have "(s', f', c') \<in> set ?tr" "val (X b s' f' c' t) \<noteq> 0" by auto
  then have "s' < length subs" "f' < length fl" "c' < length cl"
    by (simp_all only: triples_mem)
  from cell_unique[OF bool one x this \<open>val (X b s' f' c' t) \<noteq> 0\<close>]
  have "s' = s \<and> f' = f \<and> c' = c" by simp
  with l ne show ?thesis by (simp add: decode_cell_last Let_def)
qed

lemma decode_cell_Some:
  assumes "decode_cell val subs fl cl b t = Some (subj, fac, room)"
  shows "\<exists>s f c. s < length subs \<and> f < length fl \<and> c < length cl \<and> val (X b s f c t) \<noteq> 0 \<and>
                 subj = subs ! s \<and> fac = fl ! f \<and> room = cl ! c"
proof -
  let ?tr = "[(s, f, c). s \<leftarrow> [0..<length subs], f \<leftarrow> [0..<length fl], c \<leftarrow> [0..<length cl]]"
  let ?ys = "filter (\<lambda>(s, f, c). val (X b s f c t) \<noteq> 0) ?tr"
  from assms have ne: "?ys \<noteq> []"
    by (auto simp: decode_cell_last Let_def split: if_splits)
  then have "last ?ys \<in> set ?ys" by (rule last_in_set)
  moreover obtain s f c where l: "last ?ys = (s, f, c)" by (cases "last ?ys") auto
  ultimately have "(s, f, c) \<in> set ?tr" "val (X b s f c t) \<noteq> 0" by auto
  then have "s < length subs" "f < length fl" "c < length cl"
    by (simp_all only: triples_mem)
  moreover from assms l ne have "subj = subs ! s \<and> fac = fl ! f \<and> room = cl ! c"
    by (simp add: decode_cell_last Let_def)
  ultimately show ?thesis using \<open>val (X b s f c t) \<noteq> 0\<close> by blast
qed

lemma decode_cell_None:
  "decode_cell val subs fl cl b t = None \<longleftrightarrow>
   (\<forall>s<length subs. \<forall>f<length fl. \<forall>c<length cl. val (X b s f c t) = 0)"
proof -
  let ?tr = "[(s, f, c). s \<leftarrow> [0..<length subs], f \<leftarrow> [0..<length fl], c \<leftarrow> [0..<length cl]]"
  have "decode_cell val subs fl cl b t = None \<longleftrightarrow>
        filter (\<lambda>(s, f, c). val (X b s f c t) \<noteq> 0) ?tr = []"
    by (simp add: decode_cell_last Let_def)
  also have "\<dots> \<longleftrightarrow> (\<forall>x \<in> set ?tr. \<not> (\<lambda>(s, f, c). val (X b s f c t) \<noteq> 0) x)"
    by (simp only: filter_empty_conv)
  also have "\<dots> \<longleftrightarrow> (\<forall>s<length subs. \<forall>f<length fl. \<forall>c<length cl. val (X b s f c t) = 0)"
    by auto
  finally show ?thesis .
qed

lemma nested_sum_ge:
  fixes g :: "nat \<Rightarrow> nat \<Rightarrow> int"
  assumes "\<And>f c. f < nf \<Longrightarrow> c < nc \<Longrightarrow> 0 \<le> g f c" "f < nf" "c < nc"
  shows "g f c \<le> (\<Sum>f<nf. \<Sum>c<nc. g f c)"
proof -
  have "g f c \<le> (\<Sum>c<nc. g f c)"
    using assms by (intro member_le_sum) auto
  also have "\<dots> \<le> (\<Sum>f<nf. \<Sum>c<nc. g f c)"
    using assms by (intro member_le_sum[where f="\<lambda>f. \<Sum>c<nc. g f c"] ballI sum_nonneg) auto
  finally show ?thesis .
qed

lemma cell_subject_count:
  fixes val :: "tvar \<Rightarrow> int"
  assumes bool: "\<And>s f c. s < length subs \<Longrightarrow> f < length fl \<Longrightarrow> c < length cl \<Longrightarrow>
                  val (X b s f c t) = 0 \<or> val (X b s f c t) = 1"
    and one: "sum_list (map val [X b s f c t. s \<leftarrow> [0..<length subs], f \<leftarrow> [0..<length fl],
                                 c \<leftarrow> [0..<length cl]]) \<le> 1"
    and s: "s < length subs" and d: "distinct subs"
  shows "(if (case decode_cell val subs fl cl b t of
               None \<Rightarrow> False | Some (subj, fac, room) \<Rightarrow> subj = subs ! s) then 1 else 0) =
         (\<Sum>f<length fl. \<Sum>c<length cl. val (X b s f c t))"
proof -
  let ?n = "\<lambda>s. \<Sum>f<length fl. \<Sum>c<length cl. val (X b s f c t)"
  have nonneg: "\<And>s f c. s < length subs \<Longrightarrow> f < length fl \<Longrightarrow> c < length cl \<Longrightarrow>
                  0 \<le> val (X b s f c t)"
    using bool by fastforce
  have n0: "\<And>s. s < length subs \<Longrightarrow> 0 \<le> ?n s"
    by (intro sum_nonneg) (simp add: nonneg)
  have "?n s \<le> (\<Sum>s<length subs. ?n s)"
    using s n0 by (intro member_le_sum) auto
  also have "\<dots> \<le> 1" using one by (simp only: cell_sum_nested)
  finally have n1: "?n s \<le> 1" .
  show ?thesis
  proof (cases "case decode_cell val subs fl cl b t of
                  None \<Rightarrow> False | Some (subj, fac, room) \<Rightarrow> subj = subs ! s")
    case True
    then obtain fac room where "decode_cell val subs fl cl b t = Some (subs ! s, fac, room)"
      by (auto split: option.splits)
    from decode_cell_Some[OF this] obtain s' f c where
      r: "s' < length subs" "f < length fl" "c < length cl" "val (X b s' f c t) \<noteq> 0"
      and e: "subs ! s = subs ! s'" by blast
    from e s r(1) d have "s' = s" by (simp add: nth_eq_iff_index_eq)
    with r bool have "val (X b s f c t) = 1" by fastforce
    moreover have "val (X b s f c t) \<le> ?n s"
      using nonneg[OF s] r(2,3) by (intro nested_sum_ge) auto
    ultimately have "?n s = 1" using n1 by simp
    with True show ?thesis by simp
  next
    case False
    have "?n s = 0"
    proof (rule ccontr)
      assume "?n s \<noteq> 0"
      then obtain f where f: "f < length fl" "(\<Sum>c<length cl. val (X b s f c t)) \<noteq> 0"
        by (metis (no_types, lifting) lessThan_iff sum.neutral)
      then obtain c where c: "c < length cl" "val (X b s f c t) \<noteq> 0"
        by (metis (no_types, lifting) lessThan_iff sum.neutral)
      from decode_cell_of_true[OF bool one s f(1) c]
      have "decode_cell val subs fl cl b t = Some (subs ! s, fl ! f, cl ! c)" by simp
      with False show False by simp
    qed
    with False show ?thesis by simp
  qed
qed

lemma all_subjects_distinct: "distinct (all_subjects_of batches)"
  by (simp add: all_subjects_of_def)

lemma all_subjects_mem:
  assumes "map_of batches b_name = Some bd" "map_of (batch_subjects bd) s_name = Some info"
  shows "s_name \<in> set (all_subjects_of batches)"
proof -
  from assms(1) have "(b_name, bd) \<in> set batches" by (rule map_of_SomeD)
  moreover from assms(2) have "(s_name, info) \<in> set (batch_subjects bd)" by (rule map_of_SomeD)
  ultimately show ?thesis
    by (force simp: all_subjects_of_def)
qed

lemma solve_timetable_model_Inr:
  assumes "solve_timetable_model self Solve batches faculty classrooms time_limit mn mx = Inr r"
  obtains m where
    "build_model self batches faculty classrooms mn mx = Inr m"
    "fst (Solve time_limit m) \<in> {OPTIMAL, FEASIBLE}"
    "res_batch_list r = sort (map fst batches)"
    "res_schedule r =
       decode_schedule (snd (Solve time_limit m)) (all_subjects_of batches) (sort (map fst faculty))
         (sort (map fst classrooms)) (length batches)
         (length (get_current_days self) * length (self_slots self))"
  using assms
  by (auto simp: solve_timetable_model_def Let_def split: sum.splits prod.splits if_splits)

lemma hard_constraints_parts:
  fixes batches faculty classrooms nd nspd mn mx
  defines "hc \<equiv> set (hard_constraints batches faculty classrooms nd nspd mn mx)"
  shows "set (structural_constraints batches faculty classrooms (sort (map fst batches))
               (sort (map fst faculty)) (sort (map fst classrooms)) (all_subjects_of batches)
               (nd * nspd)) \<subseteq> hc"
    and "set (batch_slot_constraints (length batches) (length (all_subjects_of batches))
               (length faculty) (length classrooms) (nd * nspd)) \<subseteq> hc"
    and "set (faculty_slot_constraints (length batches) (length (all_subjects_of batches))
               (length faculty) (length classrooms) (nd * nspd)) \<subseteq> hc"
    and "set (classroom_slot_constraints classrooms (sort (map fst classrooms)) (length batches)
               (length (all_subjects_of batches)) (length faculty) (nd * nspd)) \<subseteq> hc"
    and "set (exact_hours_constraints batches (sort (map fst batches)) (all_subjects_of batches)
               (length faculty) (length classrooms) (nd * nspd)) \<subseteq> hc"
    and "set (y_constraints (length batches) (length (all_subjects_of batches))
               (length faculty) (length classrooms) (nd * nspd)) \<subseteq> hc"
    and "set (day_constraints (length batches) nd nspd mn mx) \<subseteq> hc"
  unfolding hc_def hard_constraints_def Let_def by auto

lemma satisfies_hard:
  assumes "build_model self batches faculty classrooms mn mx = Inr m" "satisfies m val"
  shows "\<forall>c \<in> set (hard_constraints batches faculty classrooms (length (get_current_days self))
               (length (self_slots self)) mn mx). holds val c"
  using assms build_model_parts(2)[OF assms(1)] by (auto simp: satisfies_def)

lemma satisfies_x_bool:
  assumes "build_model self batches faculty classrooms mn mx = Inr m" "satisfies m val"
    and "b < length batches" "s < length (all_subjects_of batches)" "f < length faculty"
        "c < length classrooms" "t < length (get_current_days self) * length (self_slots self)"
  shows "val (X b s f c t) = 0 \<or> val (X b s f c t) = 1"
proof -
  have "X b s f c t \<in> set (bool_vars m)"
    using build_model_parts(1)[OF assms(1)] x_vars_mem[OF assms(3-7)] by blast
  with assms(2) show ?thesis by (auto simp: satisfies_def)
qed

lemma faculty_slot_sem:
  assumes "\<forall>c \<in> set (faculty_slot_constraints nb ns nf nc ts). holds val c" "f < nf" "t < ts"
  shows "sum_list (map val [X b s f c t. b \<leftarrow> [0..<nb], s \<leftarrow> [0..<ns], c \<leftarrow> [0..<nc]]) \<le> 1"
proof -
  have "Linear (Sum [X b s f c t. b \<leftarrow> [0..<nb], s \<leftarrow> [0..<ns], c \<leftarrow> [0..<nc]]) LE (Const 1) []
        \<in> set (faculty_slot_constraints nb ns nf nc ts)"
    using assms(2,3) by (force simp: faculty_slot_constraints_def)
  with assms(1) have "holds val (Linear (Sum [X b s f c t. b \<leftarrow> [0..<nb], s \<leftarrow> [0..<ns],
                        c \<leftarrow> [0..<nc]]) LE (Const 1) [])"
    by blast
  then show ?thesis by simp
qed

lemma classroom_slot_sem:
  assumes "\<forall>c \<in> set (classroom_slot_constraints classrooms cl nb ns nf ts). holds val c"
    "c < length cl" "t < ts"
  shows "sum_list (map val [X b s f c t. b \<leftarrow> [0..<nb], s \<leftarrow> [0..<ns], f \<leftarrow> [0..<nf]])
         \<le> capacity (the (map_of classrooms (cl ! c)))"
proof -
  have "Linear (Sum [X b s f c t. b \<leftarrow> [0..<nb], s \<leftarrow> [0..<ns], f \<leftarrow> [0..<nf]]) LE
          (Const (capacity (the (map_of classrooms (cl ! c))))) []
        \<in> set (classroom_slot_constraints classrooms cl nb ns nf ts)"
    using assms(2,3) by (force simp: classroom_slot_constraints_def in_set_enumerate_eq)
  with assms(1) have "holds val (Linear (Sum [X b s f c t. b \<leftarrow> [0..<nb], s \<leftarrow> [0..<ns],
       f \<leftarrow> [0..<nf]]) LE (Const (capacity (the (map_of classrooms (cl ! c))))) [])"
    by blast
  then show ?thesis by simp
qed

lemma tg_exact_hours:
  assumes contract: "solver_contract Solve"
    and ok: "solve_timetable_model self Solve batches faculty classrooms time_limit mn mx = Inr r"
    and b: "b_idx < length (res_batch_list r)"
    and bd: "map_of batches (res_batch_list r ! b_idx) = Some bd"
    and info: "map_of (batch_subjects bd) s_name = Some info"
  shows "int (length (filter (\<lambda>cell. case cell of None \<Rightarrow> False
                                      | Some (subj, fac, room) \<Rightarrow> subj = s_name)
                      (res_schedule r ! b_idx))) = required_hours info"
proof -
  from ok obtain m where m: "build_model self batches faculty classrooms mn mx = Inr m"
    and st: "fst (Solve time_limit m) \<in> {OPTIMAL, FEASIBLE}"
    and bl: "res_batch_list r = sort (map fst batches)"
    and sc: "res_schedule r =
       decode_schedule (snd (Solve time_limit m)) (all_subjects_of batches) (sort (map fst faculty))
         (sort (map fst classrooms)) (length batches)
         (length (get_current_days self) * length (self_slots self))"
    by (rule solve_timetable_model_Inr)
  define val where "val = snd (Solve time_limit m)"
  define subs where "subs = all_subjects_of batches"
  define fl where "fl = sort (map fst faculty)"
  define cl where "cl = sort (map fst classrooms)"
  define ts where "ts = length (get_current_days self) * length (self_slots self)"
  have sat: "satisfies m val"
    using contract st unfolding val_def solver_contract_def by blast
  note hard = satisfies_hard[OF m sat]
  have nb: "b_idx < length batches" using b bl by simp
  have lens: "length fl = length faculty" "length cl = length classrooms"
    by (simp_all add: fl_def cl_def)
  from all_subjects_mem[OF bd info] obtain s where s: "s < length subs" "subs ! s = s_name"
    unfolding subs_def by (auto simp: in_set_conv_nth)
  have d: "distinct subs" unfolding subs_def by (rule all_subjects_distinct)
  have bool: "\<And>s f c t. s < length subs \<Longrightarrow> f < length fl \<Longrightarrow> c < length cl \<Longrightarrow> t < ts \<Longrightarrow>
                val (X b_idx s f c t) = 0 \<or> val (X b_idx s f c t) = 1"
    using satisfies_x_bool[OF m sat nb] unfolding subs_def lens ts_def by blast
  have one: "\<And>t. t < ts \<Longrightarrow>
      sum_list (map val [X b_idx s f c t. s \<leftarrow> [0..<length subs], f \<leftarrow> [0..<length fl],
                         c \<leftarrow> [0..<length cl]]) \<le> 1"
    unfolding subs_def lens ts_def
    using hard hard_constraints_parts(2) nb by (intro batch_slot_sem) blast+
  have ex: "sum_list (map val [X b_idx s f c t. f \<leftarrow> [0..<length fl], c \<leftarrow> [0..<length cl],
                               t \<leftarrow> [0..<ts]]) = required_hours info"
    unfolding lens ts_def
  proof (rule exact_hours_sem)
    show "\<forall>c\<in>set (exact_hours_constraints batches (sort (map fst batches)) (all_subjects_of batches)
                 (length faculty) (length classrooms)
                 (length (get_current_days self) * length (self_slots self))). holds val c"
      using hard hard_constraints_parts(5) by blast
    show "b_idx < length (sort (map fst batches))" using nb by simp
    show "s < length (all_subjects_of batches)" using s(1) by (simp add: subs_def)
    show "map_of (batch_subjects (the (map_of batches (sort (map fst batches) ! b_idx))))
           (all_subjects_of batches ! s) = Some info"
      using bd info s(2) by (simp add: bl subs_def)
  qed
  have row: "res_schedule r ! b_idx = map (decode_cell val subs fl cl b_idx) [0..<ts]"
    using nb by (simp add: sc decode_schedule_def val_def subs_def fl_def cl_def ts_def)
  have "int (length (filter (\<lambda>cell. case cell of None \<Rightarrow> False
                                      | Some (subj, fac, room) \<Rightarrow> subj = s_name)
                      (res_schedule r ! b_idx))) =
        (\<Sum>t<ts. if (case decode_cell val subs fl cl b_idx t of None \<Rightarrow> False
                      | Some (subj, fac, room) \<Rightarrow> subj = subs ! s) then 1 else 0)"
    unfolding row s(2) by (rule count_filter_upt)
  also have "\<dots> = (\<Sum>t<ts. \<Sum>f<length fl. \<Sum>c<length cl. val (X b_idx s f c t))"
  proof (rule sum.cong[OF refl])
    fix t assume "t \<in> {..<ts}"
    then have t: "t < ts" by simp
    show "(if (case decode_cell val subs fl cl b_idx t of None \<Rightarrow> False
                      | Some (subj, fac, room) \<Rightarrow> subj = subs ! s) then 1 else 0) =
          (\<Sum>f<length fl. \<Sum>c<length cl. val (X b_idx s f c t))"
      using bool[OF _ _ _ t] one[OF t] s(1) d by (rule cell_subject_count)
  qed
  also have "\<dots> = required_hours info"
    using ex by (simp only: subject_sum_nested)
  finally show ?thesis .
qed

lemma count_true_le:
  fixes val :: "'v \<Rightarrow> int"
  assumes "\<forall>v \<in> set vs. val v = 0 \<or> val v = 1"
  shows "int (length (filter (\<lambda>v. val v = 1) vs)) = sum_list (map val vs)"
  using assms by (induction vs) auto

lemma candidate_solver_contract: "solver_contract (candidate_solver cand)"
  by (simp add: solver_contract_def candidate_solver_def)

lemma tg_bookings:
  assumes contract: "solver_contract Solve"
    and ok: "solve_timetable_model self Solve batches faculty classrooms time_limit mn mx = Inr r"
    and m: "build_model self batches faculty classrooms mn mx = Inr m"
    and t: "t < length (get_current_days self) * length (self_slots self)"
  defines "val \<equiv> snd (Solve time_limit m)"
  defines "nb \<equiv> length batches" and "ns \<equiv> length (all_subjects_of batches)"
    and "nf \<equiv> length faculty" and "nc \<equiv> length classrooms"
  shows "b < nb \<Longrightarrow>
           length (filter (\<lambda>v. val v = 1)
                     [X b s f c t. s \<leftarrow> [0..<ns], f \<leftarrow> [0..<nf], c \<leftarrow> [0..<nc]]) \<le> 1"
    and "f < nf \<Longrightarrow>
           length (filter (\<lambda>v. val v = 1)
                     [X b s f c t. b \<leftarrow> [0..<nb], s \<leftarrow> [0..<ns], c \<leftarrow> [0..<nc]]) \<le> 1"
    and "c < nc \<Longrightarrow>
           int (length (filter (\<lambda>v. val v = 1)
                     [X b s f c t. b \<leftarrow> [0..<nb], s \<leftarrow> [0..<ns], f \<leftarrow> [0..<nf]]))
           \<le> capacity (the (map_of classrooms (sort (map fst classrooms) ! c)))"
proof -
  from ok m have st: "fst (Solve time_limit m) \<in> {OPTIMAL, FEASIBLE}"
    by (auto simp: solve_timetable_model_def Let_def split: prod.splits if_splits)
  have sat: "satisfies m val"
    using contract st unfolding val_def solver_contract_def by blast
  note hard = satisfies_hard[OF m sat]
  have bool: "\<And>b s f c. b < nb \<Longrightarrow> s < ns \<Longrightarrow> f < nf \<Longrightarrow> c < nc \<Longrightarrow>
                val (X b s f c t) = 0 \<or> val (X b s f c t) = 1"
    using satisfies_x_bool[OF m sat _ _ _ _ t] unfolding nb_def ns_def nf_def nc_def by blast
  {
    assume b: "b < nb"
    let ?vs = "[X b s f c t. s \<leftarrow> [0..<ns], f \<leftarrow> [0..<nf], c \<leftarrow> [0..<nc]]"
    have "\<forall>v \<in> set ?vs. val v = 0 \<or> val v = 1" using bool b by auto
    then have "int (length (filter (\<lambda>v. val v = 1) ?vs)) = sum_list (map val ?vs)"
      by (rule count_true_le)
    moreover have "sum_list (map val ?vs) \<le> 1"
      unfolding nb_def ns_def nf_def nc_def
      using hard hard_constraints_parts(2) b[unfolded nb_def] t by (intro batch_slot_sem) blast+
    ultimately show "length (filter (\<lambda>v. val v = 1) ?vs) \<le> 1" by simp
  }
  {
    assume f: "f < nf"
    let ?vs = "[X b s f c t. b \<leftarrow> [0..<nb], s \<leftarrow> [0..<ns], c \<leftarrow> [0..<nc]]"
    have "\<forall>v \<in> set ?vs. val v = 0 \<or> val v = 1" using bool f by auto
    then have "int (length (filter (\<lambda>v. val v = 1) ?vs)) = sum_list (map val ?vs)"
      by (rule count_true_le)
    moreover have "sum_list (map val ?vs) \<le> 1"
      unfolding nb_def ns_def nf_def nc_def
      using hard hard_constraints_parts(3) f[unfolded nf_def] t by (intro faculty_slot_sem) blast+
    ultimately show "length (filter (\<lambda>v. val v = 1) ?vs) \<le> 1" by simp
  }
  {
    assume c: "c < nc"
    let ?vs = "[X b s f c t. b \<leftarrow> [0..<nb], s \<leftarrow> [0..<ns], f \<leftarrow> [0..<nf]]"
    have "\<forall>v \<in> set ?vs. val v = 0 \<or> val v = 1" using bool c by auto
    then have "int (length (filter (\<lambda>v. val v = 1) ?vs)) = sum_list (map val ?vs)"
      by (rule count_true_le)
    moreover have "sum_list (map val ?vs) \<le> capacity (the (map_of classrooms (sort (map fst classrooms) ! c)))"
      unfolding nb_def ns_def nf_def nc_def
      using hard hard_constraints_parts(4) t c[unfolded nc_def]
      by (intro classroom_slot_sem) (blast, simp, blast)
    ultimately show "int (length (filter (\<lambda>v. val v = 1) ?vs))
           \<le> capacity (the (map_of classrooms (sort (map fst classrooms) ! c)))" by simp
  }
qed

lemma count_upt_sum:
  "int (length (filter P [0..<n])) = (\<Sum>b<n. if P b then 1 else 0)"
  using count_filter_upt[of P "\<lambda>b. b" n] by simp

lemma tg_schedule_bookings:
  assumes contract: "solver_contract Solve"
    and ok: "solve_timetable_model self Solve batches faculty classrooms time_limit mn mx = Inr r"
    and t: "t < length (get_current_days self) * length (self_slots self)"
  defines "fl \<equiv> sort (map fst faculty)" and "cl \<equiv> sort (map fst classrooms)"
  shows "f < length fl \<Longrightarrow> distinct (map fst faculty) \<Longrightarrow>
           length (filter (\<lambda>b. case res_schedule r ! b ! t of
                                  None \<Rightarrow> False | Some (subj, fac, room) \<Rightarrow> fac = fl ! f)
                     [0..<length (res_schedule r)]) \<le> 1"
    and "c < length cl \<Longrightarrow> distinct (map fst classrooms) \<Longrightarrow>
           int (length (filter (\<lambda>b. case res_schedule r ! b ! t of
                                  None \<Rightarrow> False | Some (subj, fac, room) \<Rightarrow> room = cl ! c)
                     [0..<length (res_schedule r)]))
           \<le> capacity (the (map_of classrooms (cl ! c)))"
proof -
  from ok obtain m where m: "build_model self batches faculty classrooms mn mx = Inr m"
    and st: "fst (Solve time_limit m) \<in> {OPTIMAL, FEASIBLE}"
    and sc: "res_schedule r =
       decode_schedule (snd (Solve time_limit m)) (all_subjects_of batches) (sort (map fst faculty))
         (sort (map fst classrooms)) (length batches)
         (length (get_current_days self) * length (self_slots self))"
    by (rule solve_timetable_model_Inr)
  define val where "val = snd (Solve time_limit m)"
  define subs where "subs = all_subjects_of batches"
  define nb where "nb = length batches"
  have sat: "satisfies m val"
    using contract st unfolding val_def solver_contract_def by blast
  note hard = satisfies_hard[OF m sat]
  have lens: "length fl = length faculty" "length cl = length classrooms"
    by (simp_all add: fl_def cl_def)
  have bool: "\<And>b s f c. b < nb \<Longrightarrow> s < length subs \<Longrightarrow> f < length fl \<Longrightarrow> c < length cl \<Longrightarrow>
                val (X b s f c t) = 0 \<or> val (X b s f c t) = 1"
    using satisfies_x_bool[OF m sat _ _ _ _ t] unfolding nb_def subs_def lens by blast
  have nonneg: "\<And>b s f c. b < nb \<Longrightarrow> s < length subs \<Longrightarrow> f < length fl \<Longrightarrow> c < length cl \<Longrightarrow>
                0 \<le> val (X b s f c t)"
    using bool by fastforce
  have len: "length (res_schedule r) = nb"
    by (simp add: sc decode_schedule_def nb_def)
  have cell: "\<And>b. b < nb \<Longrightarrow> res_schedule r ! b ! t = decode_cell val subs fl cl b t"
    using t by (simp add: sc decode_schedule_def nb_def val_def subs_def fl_def cl_def)
  {
    assume f: "f < length fl" and d: "distinct (map fst faculty)"
    have dfl: "distinct fl" using d by (simp add: fl_def)
    let ?P = "\<lambda>b. case res_schedule r ! b ! t of
                     None \<Rightarrow> False | Some (subj, fac, room) \<Rightarrow> fac = fl ! f"
    have "int (length (filter ?P [0..<length (res_schedule r)])) =
          (\<Sum>b<nb. if ?P b then 1 else 0)"
      unfolding len by (rule count_upt_sum)
    also have "\<dots> \<le> (\<Sum>b<nb. \<Sum>s<length subs. \<Sum>c<length cl. val (X b s f c t))"
    proof (rule sum_mono)
      fix b assume "b \<in> {..<nb}"
      then have b: "b < nb" by simp
      have n0: "0 \<le> (\<Sum>s<length subs. \<Sum>c<length cl. val (X b s f c t))"
        by (intro sum_nonneg) (simp add: nonneg b f)
      show "(if ?P b then 1 else 0) \<le> (\<Sum>s<length subs. \<Sum>c<length cl. val (X b s f c t))"
      proof (cases "?P b")
        case True
        then obtain subj room where "decode_cell val subs fl cl b t = Some (subj, fl ! f, room)"
          unfolding cell[OF b] by (auto split: option.splits)
        from decode_cell_Some[OF this] obtain s f' c where
          r: "s < length subs" "f' < length fl" "c < length cl" "val (X b s f' c t) \<noteq> 0"
          and e: "fl ! f = fl ! f'" by blast
        from e f r(2) dfl have "f' = f" by (simp add: nth_eq_iff_index_eq)
        with r bool[OF b] have "val (X b s f c t) = 1" by fastforce
        moreover have "val (X b s f c t) \<le> (\<Sum>s<length subs. \<Sum>c<length cl. val (X b s f c t))"
          using nonneg[OF b _ f] r(1,3)
          by (intro nested_sum_ge[where g="\<lambda>s c. val (X b s f c t)"]) auto
        ultimately show ?thesis using True by simp
      next
        case False
        with n0 show ?thesis by simp
      qed
    qed
    also have "\<dots> = sum_list (map val [X b s f c t. b \<leftarrow> [0..<nb], s \<leftarrow> [0..<length subs],
                                        c \<leftarrow> [0..<length cl]])"
      by (simp add: map_concat sum_list_concat comp_def sum_list_upt)
    also have "\<dots> \<le> 1"
      unfolding nb_def subs_def lens
      using hard hard_constraints_parts(3) f[unfolded lens] t by (intro faculty_slot_sem) blast+
    finally show "length (filter ?P [0..<length (res_schedule r)]) \<le> 1" by simp
  }
  {
    assume c: "c < length cl" and d: "distinct (map fst classrooms)"
    have dcl: "distinct cl" using d by (simp add: cl_def)
    let ?P = "\<lambda>b. case res_schedule r ! b ! t of
                     None \<Rightarrow> False | Some (subj, fac, room) \<Rightarrow> room = cl ! c"
    have "int (length (filter ?P [0..<length (res_schedule r)])) =
          (\<Sum>b<nb. if ?P b then 1 else 0)"
      unfolding len by (rule count_upt_sum)
    also have "\<dots> \<le> (\<Sum>b<nb. \<Sum>s<length subs. \<Sum>f<length fl. val (X b s f c t))"
    proof (rule sum_mono)
      fix b assume "b \<in> {..<nb}"
      then have b: "b < nb" by simp
      have n0: "0 \<le> (\<Sum>s<length subs. \<Sum>f<length fl. val (X b s f c t))"
        by (intro sum_nonneg) (simp add: nonneg b c)
      show "(if ?P b then 1 else 0) \<le> (\<Sum>s<length subs. \<Sum>f<length fl. val (X b s f c t))"
      proof (cases "?P b")
        case True
        then obtain subj fac where "decode_cell val subs fl cl b t = Some (subj, fac, cl ! c)"
          unfolding cell[OF b] by (auto split: option.splits)
        from decode_cell_Some[OF this] obtain s f c' where
          r: "s < length subs" "f < length fl" "c' < length cl" "val (X b s f c' t) \<noteq> 0"
          and e: "cl ! c = cl ! c'" by blast
        from e c r(3) dcl have "c' = c" by (simp add: nth_eq_iff_index_eq)
        with r bool[OF b] have "val (X b s f c t) = 1" by fastforce
        moreover have "val (X b s f c t) \<le> (\<Sum>s<length subs. \<Sum>f<length fl. val (X b s f c t))"
          using nonneg[OF b _ _ c] r(1,2)
          by (intro nested_sum_ge[where g="\<lambda>s f. val (X b s f c t)"]) auto
        ultimately show ?thesis using True by simp
      next
        case False
        with n0 show ?thesis by simp
      qed
    qed
    also have "\<dots> = sum_list (map val [X b s f c t. b \<leftarrow> [0..<nb], s \<leftarrow> [0..<length subs],
                                        f \<leftarrow> [0..<length fl]])"
      by (simp add: map_concat sum_list_concat comp_def sum_list_upt)
    also have "\<dots> \<le> capacity (the (map_of classrooms (cl ! c)))"
      unfolding nb_def subs_def lens cl_def
      using hard hard_constraints_parts(4) t c[unfolded lens]
      by (intro classroom_slot_sem) (blast, simp, blast)
    finally show "int (length (filter ?P [0..<length (res_schedule r)]))
           \<le> capacity (the (map_of classrooms (cl ! c)))" .
  }
qed

lemma structural_sem:
  assumes "\<forall>c \<in> set (structural_constraints batches faculty classrooms bl fl cl subs ts). holds val c"
    and "b < length bl" "s < length subs"
    and "map_of (batch_subjects (the (map_of batches (bl ! b)))) (subs ! s) = Some info"
    and "f < length fl" "fl ! f \<notin> set (faculty_for_subject faculty (subs ! s) (bl ! b))"
  shows "sum_list (map val [X b s f c t. c \<leftarrow> [0..<length cl], t \<leftarrow> [0..<ts]]) = 0"
proof -
  let ?c = "Linear (Sum [X b s f c t. c \<leftarrow> [0..<length cl], t \<leftarrow> [0..<ts]]) EQ (Const 0) []"
  have "?c \<in> set (pair_restrictions batches faculty classrooms fl cl ts b (bl ! b) s (subs ! s))"
    using assms(4-6) by (force simp: pair_restrictions_def Let_def enumerate_upt)
  moreover have "set (pair_restrictions batches faculty classrooms fl cl ts b (bl ! b) s (subs ! s))
                 \<subseteq> set (structural_constraints batches faculty classrooms bl fl cl subs ts)"
    using assms(2,3) by (force simp: structural_constraints_def enumerate_upt)
  ultimately have "holds val ?c" using assms(1) by blast
  then show ?thesis by simp
qed

lemma faculty_for_subject_empty:
  assumes "\<forall>(fac, dat) \<in> set faculty.
             case map_of (assignments dat) s_name of None \<Rightarrow> True | Some bs \<Rightarrow> b_name \<notin> bs"
  shows "faculty_for_subject faculty s_name b_name = []"
  using assms
  by (auto simp: faculty_for_subject_def filter_empty_conv split: option.splits)

lemma subject_sum_by_faculty:
  "sum_list (map val [X b s f c t. f \<leftarrow> [0..<nf], c \<leftarrow> [0..<nc], t \<leftarrow> [0..<ts]]) =
   (\<Sum>f<nf. sum_list (map val [X b s f c t. c \<leftarrow> [0..<nc], t \<leftarrow> [0..<ts]]) :: int)"
  by (simp add: map_concat sum_list_concat comp_def sum_list_upt)

lemma tg_no_faculty_unsat:
  assumes bd: "map_of batches b_name = Some bd"
    and info: "map_of (batch_subjects bd) s_name = Some info"
    and pos: "required_hours info > 0"
    and nofac: "\<forall>(fac, dat) \<in> set faculty.
             case map_of (assignments dat) s_name of None \<Rightarrow> True | Some bs \<Rightarrow> b_name \<notin> bs"
    and m: "build_model self batches faculty classrooms mn mx = Inr m"
  shows "\<not> satisfies m val"
proof
  assume sat: "satisfies m val"
  note hard = satisfies_hard[OF m sat]
  define bl where "bl = sort (map fst batches)"
  define subs where "subs = all_subjects_of batches"
  define fl where "fl = sort (map fst faculty)"
  define cl where "cl = sort (map fst classrooms)"
  define ts where "ts = length (get_current_days self) * length (self_slots self)"
  from bd have "b_name \<in> set bl"
    unfolding bl_def by (force dest: map_of_SomeD)
  then obtain b where b: "b < length bl" "bl ! b = b_name" by (auto simp: in_set_conv_nth)
  from all_subjects_mem[OF bd info] obtain s where s: "s < length subs" "subs ! s = s_name"
    unfolding subs_def by (auto simp: in_set_conv_nth)
  have i: "map_of (batch_subjects (the (map_of batches (bl ! b)))) (subs ! s) = Some info"
    using bd info b(2) s(2) by simp
  have st: "\<forall>c \<in> set (structural_constraints batches faculty classrooms bl fl cl subs ts). holds val c"
    using hard hard_constraints_parts(1) unfolding bl_def fl_def cl_def subs_def ts_def by blast
  have ex: "\<forall>c \<in> set (exact_hours_constraints batches bl subs (length fl) (length cl) ts). holds val c"
    using hard hard_constraints_parts(5) unfolding bl_def fl_def cl_def subs_def ts_def
    by (simp add: subset_iff)
  have zero: "\<And>f. f < length fl \<Longrightarrow>
                sum_list (map val [X b s f c t. c \<leftarrow> [0..<length cl], t \<leftarrow> [0..<ts]]) = 0"
    using st b(1) s(1) i
    by (rule structural_sem) (simp_all add: b(2) s(2) faculty_for_subject_empty[OF nofac])
  have "sum_list (map val [X b s f c t. f \<leftarrow> [0..<length fl], c \<leftarrow> [0..<length cl],
                           t \<leftarrow> [0..<ts]]) = required_hours info"
    using ex b(1) s(1) i by (rule exact_hours_sem)
  moreover have "sum_list (map val [X b s f c t. f \<leftarrow> [0..<length fl], c \<leftarrow> [0..<length cl],
                           t \<leftarrow> [0..<ts]]) = 0"
    unfolding subject_sum_by_faculty using zero by simp
  ultimately show False using pos by simp
qed

lemma solve_timetable_model_cases:
  "solve_timetable_model self Solve batches faculty classrooms time_limit mn mx =
    (case build_model self batches faculty classrooms mn mx of
       Inl e \<Rightarrow> Inl e
     | Inr m \<Rightarrow>
         if fst (Solve time_limit m) \<in> {OPTIMAL, FEASIBLE}
         then Inr \<lparr>res_schedule =
                    decode_schedule (snd (Solve time_limit m)) (all_subjects_of batches)
                      (sort (map fst faculty)) (sort (map fst classrooms)) (length batches)
                      (length (get_current_days self) * length (self_slots self)),
                  res_batch_list = sort (map fst batches),
                  res_workloads =
                    count_workloads (sort (map fst faculty))
                      (decode_schedule (snd (Solve time_limit m)) (all_subjects_of batches)
                         (sort (map fst faculty)) (sort (map fst classrooms)) (length batches)
                         (length (get_current_days self) * length (self_slots self)))\<rparr>
         else Inl (RuntimeError no_solution_message))"
  by (simp add: solve_timetable_model_def Let_def case_prod_beta split: sum.splits)

lemma solve_timetable_cases:
  "solve_timetable Solve subjects num_batches num_rooms max_per_day max_per_week min_per_day
       days slots time_limit =
    (case feasibility_checks subjects num_batches num_rooms max_per_day max_per_week min_per_day
            days slots of
       Some e \<Rightarrow> Inl e
     | None \<Rightarrow>
         if fst (Solve time_limit (p_build_model subjects num_batches num_rooms max_per_day
                   max_per_week min_per_day days slots)) \<in> {OPTIMAL, FEASIBLE}
         then Inr ([(b, p_decode_row
                          (snd (Solve time_limit (p_build_model subjects num_batches num_rooms
                             max_per_day max_per_week min_per_day days slots)))
                          subjects (length days * length slots) b). b \<leftarrow> [0..<nat num_batches]],
                   [(t, p_room_assignments
                          (snd (Solve time_limit (p_build_model subjects num_batches num_rooms
                             max_per_day max_per_week min_per_day days slots)))
                          (nat num_batches) t). t \<leftarrow> [0..<length days * length slots]])
         else Inl (RuntimeError p_no_solution_message))"
  by (simp add: solve_timetable_def Let_def case_prod_beta split: option.splits)


lemma feasibility_checks_pass:
  assumes "\<not> (max_per_day > int (length slots) \<or>
           max_per_week > int (length days) * int (length slots) \<or>
           min_per_day > max_per_day \<or>
           required_per_batch subjects > max_per_week \<or>
           required_per_batch subjects * num_batches >
             num_rooms * (int (length days) * int (length slots)))"
  shows "feasibility_checks subjects num_batches num_rooms max_per_day max_per_week
                 min_per_day days slots = None"
  using assms by (auto simp: feasibility_checks_def Let_def)


lemma tg_no_faculty_fails:
  assumes bd: "map_of batches b_name = Some bd"
    and info: "map_of (batch_subjects bd) s_name = Some info"
    and pos: "required_hours info > 0"
    and nofac: "\<forall>(fac, dat) \<in> set faculty.
             case map_of (assignments dat) s_name of None \<Rightarrow> True | Some bs \<Rightarrow> b_name \<notin> bs"
    and contract: "solver_contract Solve"
  shows "solve_timetable_model self Solve batches faculty classrooms time_limit mn mx =
           (case build_model self batches faculty classrooms mn mx of
              Inl e \<Rightarrow> Inl e
            | Inr m \<Rightarrow> Inl (RuntimeError no_solution_message))"
proof (cases "build_model self batches faculty classrooms mn mx")
  case (Inl e)
  then show ?thesis by (simp add: solve_timetable_model_def)
next
  case (Inr m)
  have "\<not> satisfies m (snd (Solve time_limit m))"
    using bd info pos nofac Inr by (rule tg_no_faculty_unsat)
  with contract have "fst (Solve time_limit m) \<notin> {OPTIMAL, FEASIBLE}"
    unfolding solver_contract_def by blast
  with Inr show ?thesis
    by (simp add: solve_timetable_model_cases)
qed


section \<open>Solutions of the model of \<^verbatim>\<open>solve_timetable\<close>\<close>

lemma foldl_update_length:
  "length (foldl (\<lambda>row x. if P x then row[T x := V x] else row) init xs) = length init"
  by (induction xs rule: rev_induct) simp_all

lemma foldl_update_nth:
  "t0 < length init \<Longrightarrow>
   foldl (\<lambda>row x. if P x then row[T x := V x] else row) init xs ! t0 =
     (if filter (\<lambda>x. P x \<and> T x = t0) xs = [] then init ! t0
      else V (last (filter (\<lambda>x. P x \<and> T x = t0) xs)))"
  by (induction xs rule: rev_induct) (auto simp: foldl_update_length nth_list_update)

lemma count_filter_nth:
  "int (length (filter R xs)) = (\<Sum>i<length xs. if R (xs ! i) then 1 else 0)"
proof -
  have "int (length (filter R (map ((!) xs) [0..<length xs]))) =
        (\<Sum>i<length xs. if R (xs ! i) then 1 else 0)"
    by (rule count_filter_upt)
  then show ?thesis by (simp only: map_nth)
qed

lemma map_of_upt:
  "map_of (map (\<lambda>b. (b, g b)) [0..<n]) b = (if b < n then Some (g b) else None)"
  by (induction n) (auto simp: map_add_def less_Suc_eq)

lemma p_decode_row_fold:
  "p_decode_row val subjects ts b =
     foldl (\<lambda>row x. if (\<lambda>(s_idx, name, t). val (PX b s_idx t) = 1) x
                     then row[(\<lambda>(s_idx, name, t). t) x := (\<lambda>(s_idx, name, t). name) x] else row)
       (replicate ts ''Free'')
       [(s_idx, fst (subjects ! s_idx), t). s_idx \<leftarrow> [0..<length subjects], t \<leftarrow> [0..<ts]]"
proof -
  have f: "(\<lambda>row (s_idx, name, t). if val (PX b s_idx t) = 1 then row[t := name] else row) =
        (\<lambda>row x. if (\<lambda>(s_idx, name, t). val (PX b s_idx t) = 1) x
                     then row[(\<lambda>(s_idx, name, t). t) x := (\<lambda>(s_idx, name, t). name) x] else row)"
    by (auto simp: fun_eq_iff)
  have l: "[(s_idx, name, t). (s_idx, (name, hours, faculty_count)) \<leftarrow> enumerate 0 subjects,
                          t \<leftarrow> [0..<ts]] =
        [(s_idx, fst (subjects ! s_idx), t). s_idx \<leftarrow> [0..<length subjects], t \<leftarrow> [0..<ts]]"
    by (simp add: enumerate_upt comp_def case_prod_beta)
  show ?thesis unfolding p_decode_row_def f l ..
qed

lemma solve_timetable_Inr:
  assumes "solve_timetable Solve subjects num_batches num_rooms max_per_day max_per_week
             min_per_day days slots time_limit = Inr (schedule, room_assignments)"
  defines "m \<equiv> p_build_model subjects num_batches num_rooms max_per_day max_per_week
                  min_per_day days slots"
  shows "feasibility_checks subjects num_batches num_rooms max_per_day max_per_week min_per_day
           days slots = None"
    and "fst (Solve time_limit m) \<in> {OPTIMAL, FEASIBLE}"
    and "schedule = [(b, p_decode_row (snd (Solve time_limit m)) subjects
                           (length days * length slots) b). b \<leftarrow> [0..<nat num_batches]]"
    and "room_assignments = [(t, p_room_assignments (snd (Solve time_limit m)) (nat num_batches) t).
                             t \<leftarrow> [0..<length days * length slots]]"
  using assms(1) unfolding m_def
  by (auto simp: solve_timetable_def Let_def split: option.splits prod.splits if_splits)

lemma p_model_parts:
  fixes subjects num_batches num_rooms max_per_day max_per_week min_per_day days slots
  defines "m \<equiv> p_build_model subjects num_batches num_rooms max_per_day max_per_week
                  min_per_day days slots"
  defines "nb \<equiv> nat num_batches" and "ts \<equiv> length days * length slots"
  shows "set (px_vars nb (length subjects) ts) \<subseteq> set (bool_vars m)"
    and "set (py_vars nb ts) \<subseteq> set (bool_vars m)"
    and "set (py_constraints nb (length subjects) ts) \<subseteq> set (constraints m)"
    and "set (week_constraints nb ts max_per_week) \<subseteq> set (constraints m)"
    and "set (subject_hours_constraints subjects nb ts) \<subseteq> set (constraints m)"
    and "set (room_constraints nb ts num_rooms) \<subseteq> set (constraints m)"
    and "set (faculty_count_constraints subjects nb ts) \<subseteq> set (constraints m)"
  unfolding m_def nb_def ts_def p_build_model_def Let_def by auto

lemma p_bool:
  assumes "satisfies (p_build_model subjects num_batches num_rooms max_per_day max_per_week
                  min_per_day days slots) val"
    and "b < nat num_batches" "t < length days * length slots"
  shows "s < length subjects \<Longrightarrow> val (PX b s t) = 0 \<or> val (PX b s t) = 1"
    and "val (PY b t) = 0 \<or> val (PY b t) = 1"
proof -
  have "PY b t \<in> set (py_vars (nat num_batches) (length days * length slots))"
    using assms(2,3) by (force simp: py_vars_def)
  then show "val (PY b t) = 0 \<or> val (PY b t) = 1"
    using assms(1) p_model_parts(2) unfolding satisfies_def by blast
next
  assume "s < length subjects"
  then have "PX b s t \<in> set (px_vars (nat num_batches) (length subjects) (length days * length slots))"
    using assms(2,3) by (force simp: px_vars_def)
  then show "val (PX b s t) = 0 \<or> val (PX b s t) = 1"
    using assms(1) p_model_parts(1) unfolding satisfies_def by blast
qed

lemma p_y_link:
  assumes "satisfies (p_build_model subjects num_batches num_rooms max_per_day max_per_week
                  min_per_day days slots) val"
    and "b < nat num_batches" "t < length days * length slots"
  shows "sum_list (map val [PX b s t. s \<leftarrow> [0..<length subjects]]) = val (PY b t)"
proof -
  have "Linear (Sum [PX b s t. s \<leftarrow> [0..<length subjects]]) EQ (Sum [PY b t]) []
        \<in> set (py_constraints (nat num_batches) (length subjects) (length days * length slots))"
    using assms(2,3) by (force simp: py_constraints_def)
  then have "holds val (Linear (Sum [PX b s t. s \<leftarrow> [0..<length subjects]]) EQ (Sum [PY b t]) [])"
    using assms(1) p_model_parts(3) unfolding satisfies_def by blast
  then show ?thesis by simp
qed

lemma p_subject_hours:
  assumes "satisfies (p_build_model subjects num_batches num_rooms max_per_day max_per_week
                  min_per_day days slots) val"
    and "b < nat num_batches" "s < length subjects"
  shows "sum_list (map val [PX b s t. t \<leftarrow> [0..<length days * length slots]]) =
         fst (snd (subjects ! s))"
proof -
  have "Linear (Sum [PX b s t. t \<leftarrow> [0..<length days * length slots]]) EQ
          (Const (fst (snd (subjects ! s)))) []
        \<in> set (subject_hours_constraints subjects (nat num_batches) (length days * length slots))"
    using assms(2,3)
    by (force simp: subject_hours_constraints_def enumerate_upt case_prod_beta)
  then have "holds val (Linear (Sum [PX b s t. t \<leftarrow> [0..<length days * length slots]]) EQ
          (Const (fst (snd (subjects ! s)))) [])"
    using assms(1) p_model_parts(5) unfolding satisfies_def by blast
  then show ?thesis by simp
qed

text \<open>One cell of a prototype row, when at most one subject variable of the slot is set.\<close>

lemma p_cell_iff:
  fixes val :: "pvar \<Rightarrow> int"
  assumes bool: "\<And>s. s < length subjects \<Longrightarrow> val (PX b s t) = 0 \<or> val (PX b s t) = 1"
    and one: "sum_list (map val [PX b s t. s \<leftarrow> [0..<length subjects]]) \<le> 1"
    and t: "t < ts" and s: "s < length subjects"
    and d: "distinct (map fst subjects)" and free: "''Free'' \<notin> fst ` set subjects"
  shows "p_decode_row val subjects ts b ! t = fst (subjects ! s) \<longleftrightarrow> val (PX b s t) = 1"
proof -
  let ?xs = "[(s_idx, fst (subjects ! s_idx), t). s_idx \<leftarrow> [0..<length subjects], t \<leftarrow> [0..<ts]]"
  let ?ys = "filter (\<lambda>x. (\<lambda>(s_idx, name, t). val (PX b s_idx t) = 1) x \<and>
                          (\<lambda>(s_idx, name, t). t) x = t) ?xs"
  have row: "p_decode_row val subjects ts b ! t =
        (if ?ys = [] then ''Free'' else (\<lambda>(s_idx, name, t). name) (last ?ys))"
    unfolding p_decode_row_fold using t by (subst foldl_update_nth) simp_all
  have uniq: "\<And>s'. s' < length subjects \<Longrightarrow> val (PX b s' t) = 1 \<Longrightarrow> val (PX b s t) = 1 \<Longrightarrow> s' = s"
  proof -
    fix s' assume a: "s' < length subjects" "val (PX b s' t) = 1" "val (PX b s t) = 1"
    let ?vs = "[PX b s t. s \<leftarrow> [0..<length subjects]]"
    have "\<forall>v \<in> set ?vs. val v = 0 \<or> val v = 1" using bool by auto
    then have "sum_list (map val ?vs) = int (length (filter (\<lambda>v. val v \<noteq> 0) ?vs))"
      by (rule sum_list_01_count)
    with one have "length (filter (\<lambda>v. val v \<noteq> 0) ?vs) \<le> 1" by simp
    moreover have "PX b s' t \<in> set ?vs" "PX b s t \<in> set ?vs" using a(1) s by auto
    ultimately have "PX b s' t = PX b s t"
      using a(2,3) by (intro filter_le_one_unique[where Q="\<lambda>v. val v \<noteq> 0" and vs="?vs"]) auto
    then show "s' = s" by simp
  qed
  have last_props: "?ys \<noteq> [] \<Longrightarrow>
      \<exists>s'. s' < length subjects \<and> val (PX b s' t) = 1 \<and> last ?ys = (s', fst (subjects ! s'), t)"
  proof -
    assume "?ys \<noteq> []"
    then have "last ?ys \<in> set ?ys" by (rule last_in_set)
    then show ?thesis by auto
  qed
  show ?thesis
  proof
    assume eq: "p_decode_row val subjects ts b ! t = fst (subjects ! s)"
    have ne: "?ys \<noteq> []"
    proof
      assume "?ys = []"
      with row eq have "''Free'' = fst (subjects ! s)" by simp
      with free s show False by (metis image_eqI nth_mem)
    qed
    from last_props[OF ne] obtain s' where s': "s' < length subjects" "val (PX b s' t) = 1"
      "last ?ys = (s', fst (subjects ! s'), t)" by blast
    with row eq ne have "fst (subjects ! s') = fst (subjects ! s)" by simp
    with d s s'(1) have "s' = s"
      by (metis length_map nth_eq_iff_index_eq nth_map)
    with s'(2) show "val (PX b s t) = 1" by simp
  next
    assume v: "val (PX b s t) = 1"
    have "(s, fst (subjects ! s), t) \<in> set ?ys" using s t v by force
    then have ne: "?ys \<noteq> []" by (rule in_set_nonempty)
    from last_props[OF ne] obtain s' where s': "s' < length subjects" "val (PX b s' t) = 1"
      "last ?ys = (s', fst (subjects ! s'), t)" by blast
    from uniq[OF s'(1,2) v] have "s' = s" .
    with row ne s'(3) show "p_decode_row val subjects ts b ! t = fst (subjects ! s)" by simp
  qed
qed

lemma proto_exact_hours:
  assumes contract: "solver_contract Solve"
    and ok: "solve_timetable Solve subjects num_batches num_rooms max_per_day max_per_week
               min_per_day days slots time_limit = Inr (schedule, room_assignments)"
    and row: "map_of schedule b = Some row"
    and s: "s < length subjects"
    and d: "distinct (map fst subjects)" and free: "''Free'' \<notin> fst ` set subjects"
  shows "int (length (filter (\<lambda>cell. cell = fst (subjects ! s)) row)) = fst (snd (subjects ! s))"
proof -
  define m where "m = p_build_model subjects num_batches num_rooms max_per_day max_per_week
                  min_per_day days slots"
  define val where "val = snd (Solve time_limit m)"
  define ts where "ts = length days * length slots"
  note inv = solve_timetable_Inr[OF ok, folded m_def val_def ts_def]
  have sat: "satisfies m val"
    using contract inv(2) unfolding val_def solver_contract_def by blast
  from row have b: "b < nat num_batches" and r: "row = p_decode_row val subjects ts b"
    unfolding inv(3) by (auto simp: map_of_upt split: if_splits)
  have len: "length row = ts"
    unfolding r p_decode_row_fold by (simp add: foldl_update_length)
  have "int (length (filter (\<lambda>cell. cell = fst (subjects ! s)) row)) =
        (\<Sum>t<ts. if row ! t = fst (subjects ! s) then 1 else 0)"
    by (simp only: count_filter_nth len)
  also have "\<dots> = (\<Sum>t<ts. val (PX b s t))"
  proof (rule sum.cong[OF refl])
    fix t assume "t \<in> {..<ts}"
    then have t: "t < ts" by simp
    have bool: "\<And>s. s < length subjects \<Longrightarrow> val (PX b s t) = 0 \<or> val (PX b s t) = 1"
      and y: "val (PY b t) = 0 \<or> val (PY b t) = 1"
      using p_bool[OF sat[unfolded m_def] b t[unfolded ts_def]] by blast+
    have one: "sum_list (map val [PX b s t. s \<leftarrow> [0..<length subjects]]) \<le> 1"
      using p_y_link[OF sat[unfolded m_def] b t[unfolded ts_def]] y by auto
    have "row ! t = fst (subjects ! s) \<longleftrightarrow> val (PX b s t) = 1"
      unfolding r using bool one t s d free by (rule p_cell_iff)
    with bool[OF s] show "(if row ! t = fst (subjects ! s) then 1 else 0) = val (PX b s t)"
      by auto
  qed
  also have "\<dots> = sum_list (map val [PX b s t. t \<leftarrow> [0..<ts]])"
    by (simp add: comp_def sum_list_upt)
  also have "\<dots> = fst (snd (subjects ! s))"
    unfolding ts_def using sat[unfolded m_def] b s by (rule p_subject_hours)
  finally show ?thesis .
qed


lemma p_rooms:
  assumes "satisfies (p_build_model subjects num_batches num_rooms max_per_day max_per_week
                  min_per_day days slots) val"
    and "t < length days * length slots"
  shows "sum_list (map val [PY b t. b \<leftarrow> [0..<nat num_batches]]) \<le> num_rooms"
proof -
  have "Linear (Sum [PY b t. b \<leftarrow> [0..<nat num_batches]]) LE (Const num_rooms) []
        \<in> set (room_constraints (nat num_batches) (length days * length slots) num_rooms)"
    using assms(2) by (force simp: room_constraints_def)
  then have "holds val (Linear (Sum [PY b t. b \<leftarrow> [0..<nat num_batches]]) LE (Const num_rooms) [])"
    using assms(1) p_model_parts(6) unfolding satisfies_def by blast
  then show ?thesis by simp
qed

lemma p_faculty_count:
  assumes "satisfies (p_build_model subjects num_batches num_rooms max_per_day max_per_week
                  min_per_day days slots) val"
    and "s < length subjects" "t < length days * length slots"
  shows "sum_list (map val [PX b s t. b \<leftarrow> [0..<nat num_batches]]) \<le> snd (snd (subjects ! s))"
proof -
  have "Linear (Sum [PX b s t. b \<leftarrow> [0..<nat num_batches]]) LE
          (Const (snd (snd (subjects ! s)))) []
        \<in> set (faculty_count_constraints subjects (nat num_batches) (length days * length slots))"
    using assms(2,3)
    by (force simp: faculty_count_constraints_def enumerate_upt case_prod_beta)
  then have "holds val (Linear (Sum [PX b s t. b \<leftarrow> [0..<nat num_batches]]) LE
          (Const (snd (snd (subjects ! s)))) [])"
    using assms(1) p_model_parts(7) unfolding satisfies_def by blast
  then show ?thesis by simp
qed

lemma p_room_assignments_shape:
  "map fst (p_room_assignments val nb t) =
     [1..<Suc (length (filter (\<lambda>b. val (PY b t) = 1) [0..<nb]))]"
  "map snd (p_room_assignments val nb t) = filter (\<lambda>b. val (PY b t) = 1) [0..<nb]"
proof -
  let ?occ = "filter (\<lambda>b. val (PY b t) = 1) [0..<nb]"
  have "map fst (p_room_assignments val nb t) = map Suc [0..<length ?occ]"
    by (simp add: p_room_assignments_def enumerate_upt comp_def)
  then show "map fst (p_room_assignments val nb t) = [1..<Suc (length ?occ)]"
    by (simp only: map_Suc_upt) simp
  show "map snd (p_room_assignments val nb t) = ?occ"
    by (simp add: p_room_assignments_def enumerate_upt comp_def map_nth)
qed

lemma proto_bookings:
  assumes contract: "solver_contract Solve"
    and ok: "solve_timetable Solve subjects num_batches num_rooms max_per_day max_per_week
               min_per_day days slots time_limit = Inr (schedule, room_assignments)"
    and t: "t < length days * length slots"
  defines "val \<equiv> snd (Solve time_limit (p_build_model subjects num_batches num_rooms max_per_day
                         max_per_week min_per_day days slots))"
  shows "b < nat num_batches \<Longrightarrow>
           length (filter (\<lambda>v. val v = 1) [PX b s t. s \<leftarrow> [0..<length subjects]]) \<le> 1"
    and "s < length subjects \<Longrightarrow>
           int (length (filter (\<lambda>v. val v = 1) [PX b s t. b \<leftarrow> [0..<nat num_batches]]))
           \<le> snd (snd (subjects ! s))"
    and "int (length (filter (\<lambda>b. val (PY b t) = 1) [0..<nat num_batches])) \<le> num_rooms"
    and "map_of room_assignments t = Some (p_room_assignments val (nat num_batches) t)"
proof -
  define m where "m = p_build_model subjects num_batches num_rooms max_per_day max_per_week
                  min_per_day days slots"
  note inv = solve_timetable_Inr[OF ok, folded m_def]
  have sat: "satisfies m val"
    using contract inv(2) unfolding val_def m_def solver_contract_def by blast
  {
    assume b: "b < nat num_batches"
    let ?vs = "[PX b s t. s \<leftarrow> [0..<length subjects]]"
    have "\<forall>v \<in> set ?vs. val v = 0 \<or> val v = 1"
      using p_bool(1)[OF sat[unfolded m_def] b t] by auto
    then have "int (length (filter (\<lambda>v. val v = 1) ?vs)) = sum_list (map val ?vs)"
      by (rule count_true_le)
    moreover have "sum_list (map val ?vs) \<le> 1"
      using p_y_link[OF sat[unfolded m_def] b t] p_bool(2)[OF sat[unfolded m_def] b t] by auto
    ultimately show "length (filter (\<lambda>v. val v = 1) ?vs) \<le> 1" by simp
  }
  {
    assume s: "s < length subjects"
    let ?vs = "[PX b s t. b \<leftarrow> [0..<nat num_batches]]"
    have "\<forall>v \<in> set ?vs. val v = 0 \<or> val v = 1"
      using p_bool(1)[OF sat[unfolded m_def] _ t s] by auto
    then have "int (length (filter (\<lambda>v. val v = 1) ?vs)) = sum_list (map val ?vs)"
      by (rule count_true_le)
    with p_faculty_count[OF sat[unfolded m_def] s t]
    show "int (length (filter (\<lambda>v. val v = 1) ?vs)) \<le> snd (snd (subjects ! s))" by simp
  }
  {
    let ?vs = "[PY b t. b \<leftarrow> [0..<nat num_batches]]"
    have "\<forall>v \<in> set ?vs. val v = 0 \<or> val v = 1"
      using p_bool(2)[OF sat[unfolded m_def] _ t] by auto
    then have "int (length (filter (\<lambda>v. val v = 1) ?vs)) = sum_list (map val ?vs)"
      by (rule count_true_le)
    moreover have "length (filter (\<lambda>v. val v = 1) ?vs) =
                   length (filter (\<lambda>b. val (PY b t) = 1) [0..<nat num_batches])"
      by (simp add: filter_map comp_def)
    ultimately show "int (length (filter (\<lambda>b. val (PY b t) = 1) [0..<nat num_batches])) \<le> num_rooms"
      using p_rooms[OF sat[unfolded m_def] t] by simp
  }
  show "map_of room_assignments t = Some (p_room_assignments val (nat num_batches) t)"
    unfolding inv(4) using t by (simp add: map_of_upt val_def m_def)
qed




section \<open>Rebuilding the time grid\<close>

lemma length_filter_neq_distinct:
  "distinct xs \<Longrightarrow>
   length (filter (\<lambda>h. h \<noteq> l) xs) + (if l \<in> set xs then 1 else 0) = length xs"
  by (induction xs) auto

lemma length_py_range: "a < b \<Longrightarrow> int (length (py_range a b)) = b - a"
  by (simp add: py_range_def)

lemma set_py_range: "set (py_range a b) = {h. a \<le> h \<and> h < b}"
  by (auto simp: py_range_def)

lemma distinct_py_range: "distinct (py_range a b)"
  by (simp add: py_range_def)

lemma slots_update_slot_dependent_widgets:
  "self_slots (update_slot_dependent_widgets st) = self_slots st"
  by (simp add: update_slot_dependent_widgets_def Let_def)

lemma classrooms_update_slot_dependent_widgets:
  "self_classrooms (update_slot_dependent_widgets st) = self_classrooms st"
  by (simp add: update_slot_dependent_widgets_def Let_def)

lemma clamp_update_slot_dependent_widgets:
  "class_max_daily_hours_var (update_slot_dependent_widgets st) =
     min (class_max_daily_hours_var st) (max 1 (int (length (self_slots st))))"
  "max_hours_day_var (update_slot_dependent_widgets st) =
     min (max_hours_day_var st) (max 1 (int (length (self_slots st))))"
  by (cases "self_slots st"; simp add: update_slot_dependent_widgets_def Let_def)+

text \<open>
  C10. \<^verbatim>\<open>update_slots\<close> with start hour at or after the end hour reports the error and
  returns the state as it was. With start before end, the new slot list has one label
  \<^verbatim>\<open>h-(h+1)\<close> for every hour \<open>h\<close> of \<^verbatim>\<open>range(start, end)\<close> other than the lunch hour, in
  order; so it has \<open>end - start - 1\<close> entries when the lunch hour lies in the range and
  \<open>end - start\<close> otherwise.
\<close>

theorem update_slots_atomic:
  "(start_hour_var st \<ge> end_hour_var st \<longrightarrow>
      update_slots st = (ShowError ''Error'' ''Start hour must be less than end hour.'', st)) \<and>
   (start_hour_var st < end_hour_var st \<longrightarrow>
      self_slots (snd (update_slots st)) =
        map slot_label (filter (\<lambda>hour. hour \<noteq> lunch_hour_var st)
                          (py_range (start_hour_var st) (end_hour_var st))) \<and>
      int (length (self_slots (snd (update_slots st)))) =
        (if start_hour_var st \<le> lunch_hour_var st \<and> lunch_hour_var st < end_hour_var st
         then end_hour_var st - start_hour_var st - 1
         else end_hour_var st - start_hour_var st))"
proof (intro conjI impI)
  assume "end_hour_var st \<le> start_hour_var st"
  then show "update_slots st = (ShowError ''Error'' ''Start hour must be less than end hour.'', st)"
    by (simp add: update_slots_def)
next
  assume lt: "start_hour_var st < end_hour_var st"
  then show sl: "self_slots (snd (update_slots st)) =
        map slot_label (filter (\<lambda>hour. hour \<noteq> lunch_hour_var st)
                          (py_range (start_hour_var st) (end_hour_var st)))"
    by (simp add: update_slots_def Let_def slots_update_slot_dependent_widgets)
  have "length (filter (\<lambda>hour. hour \<noteq> lunch_hour_var st)
                  (py_range (start_hour_var st) (end_hour_var st))) +
          (if lunch_hour_var st \<in> set (py_range (start_hour_var st) (end_hour_var st))
           then 1 else 0)
       = length (py_range (start_hour_var st) (end_hour_var st))"
    by (rule length_filter_neq_distinct) (rule distinct_py_range)
  moreover have "int (length (py_range (start_hour_var st) (end_hour_var st))) =
                 end_hour_var st - start_hour_var st"
    using lt by (rule length_py_range)
  ultimately show "int (length (self_slots (snd (update_slots st)))) =
        (if start_hour_var st \<le> lunch_hour_var st \<and> lunch_hour_var st < end_hour_var st
         then end_hour_var st - start_hour_var st - 1
         else end_hour_var st - start_hour_var st)"
    unfolding sl length_map set_py_range by (auto split: if_splits)
qed

theorem update_slots_atomic_witness:
  "end_hour_var form_9_9 \<le> start_hour_var form_9_9 \<and>
   update_slots form_9_9 =
     (ShowError ''Error'' ''Start hour must be less than end hour.'', form_9_9) \<and>
   start_hour_var form_9_12 < end_hour_var form_9_12 \<and>
   self_slots (snd (update_slots form_9_12)) = [''9-10'', ''11-12''] \<and>
   int (length (self_slots (snd (update_slots form_9_12)))) = 2"
proof -
  have e: "end_hour_var form_9_9 \<le> start_hour_var form_9_9"
    by (simp add: form_9_9_def form_9_12_def)
  have l: "start_hour_var form_9_12 < end_hour_var form_9_12"
    by (simp add: form_9_12_def)
  have v: "map slot_label (filter (\<lambda>hour. hour \<noteq> lunch_hour_var form_9_12)
             (py_range (start_hour_var form_9_12) (end_hour_var form_9_12))) = [''9-10'', ''11-12'']"
    by code_simp
  from update_slots_atomic [of form_9_9] update_slots_atomic [of form_9_12] e l v
  show ?thesis by (simp add: form_9_12_def)
qed

text \<open>
  C9, as stated, fails: \<^verbatim>\<open>update_slots\<close> shrinks the day of \<open>form_9_12\<close> to two slots and the
  classroom stored with seven daily hours keeps its seven.
\<close>

theorem update_slots_keeps_stale_cap:
  "\<not> classroom_caps_within_day (snd (update_slots form_9_12))"
  by code_simp

text \<open>
  C9, amended. \<^verbatim>\<open>update_slots\<close> never changes the classroom registry. When it rebuilds the
  slot list, what it clamps is the pair of form variables \<^verbatim>\<open>max_hours_day_var\<close> and
  \<^verbatim>\<open>class_max_daily_hours_var\<close>: each becomes the smaller of its old value and the new slot
  count, where an empty slot list counts as one slot.
\<close>

theorem update_slots_clamps_form_only:
  "self_classrooms (snd (update_slots st)) = self_classrooms st \<and>
   (start_hour_var st < end_hour_var st \<longrightarrow>
      class_max_daily_hours_var (snd (update_slots st)) =
        min (class_max_daily_hours_var st)
            (max 1 (int (length (self_slots (snd (update_slots st)))))) \<and>
      max_hours_day_var (snd (update_slots st)) =
        min (max_hours_day_var st)
            (max 1 (int (length (self_slots (snd (update_slots st)))))))"
  by (simp add: update_slots_def Let_def classrooms_update_slot_dependent_widgets
        slots_update_slot_dependent_widgets clamp_update_slot_dependent_widgets)

theorem update_slots_clamps_form_only_witness:
  "start_hour_var form_9_12 < end_hour_var form_9_12 \<and>
   self_classrooms (snd (update_slots form_9_12)) = self_classrooms form_9_12 \<and>
   class_max_daily_hours_var (snd (update_slots form_9_12)) = 2 \<and>
   max_hours_day_var (snd (update_slots form_9_12)) = 2"
proof -
  have l: "start_hour_var form_9_12 < end_hour_var form_9_12"
    by (simp add: form_9_12_def)
  have n: "int (length (self_slots (snd (update_slots form_9_12)))) = 2"
    by code_simp
  from update_slots_clamps_form_only [of form_9_12] l n
  show ?thesis by (simp add: form_9_12_def)
qed

section \<open>The solved schedule\<close>

text \<open>
  C1. Whenever a solve succeeds with an engine that honours its contract, every subject a
  batch requires fills exactly its weekly hours in that batch's row of the schedule. For
  \<^verbatim>\<open>solve_timetable_model\<close>: the number of cells of the row of batch \<open>b_idx\<close> whose subject
  is \<open>s_name\<close> equals the hours that \<^verbatim>\<open>batches[b_name]["subjects"][s_name]\<close> declares. For the
  prototype's \<^verbatim>\<open>solve_timetable\<close>, whose rows hold subject names and the text \<^verbatim>\<open>Free\<close>: the
  number of cells holding the name of subject \<open>s\<close> equals its hours, for subject names that
  are pairwise different and different from \<^verbatim>\<open>Free\<close>.
\<close>

theorem exact_weekly_hours:
  "(solver_contract Solve \<and>
    solve_timetable_model self Solve batches faculty classrooms time_limit min_hours_day
      max_hours_day = Inr r \<and>
    b_idx < length (res_batch_list r) \<and>
    map_of batches (res_batch_list r ! b_idx) = Some bd \<and>
    map_of (batch_subjects bd) s_name = Some info \<longrightarrow>
      int (length (filter (\<lambda>cell. case cell of None \<Rightarrow> False
                                     | Some (subj, fac, room) \<Rightarrow> subj = s_name)
                     (res_schedule r ! b_idx))) = required_hours info) \<and>
   (solver_contract PSolve \<and>
    solve_timetable PSolve subjects num_batches num_rooms max_per_day max_per_week min_per_day
      days slots limit = Inr (schedule, room_assignments) \<and>
    map_of schedule b = Some row \<and>
    s < length subjects \<and>
    distinct (map fst subjects) \<and> ''Free'' \<notin> fst ` set subjects \<longrightarrow>
      int (length (filter (\<lambda>cell. cell = fst (subjects ! s)) row)) = fst (snd (subjects ! s)))"
proof (intro conjI impI)
  assume "solver_contract Solve \<and>
    solve_timetable_model self Solve batches faculty classrooms time_limit min_hours_day
      max_hours_day = Inr r \<and>
    b_idx < length (res_batch_list r) \<and>
    map_of batches (res_batch_list r ! b_idx) = Some bd \<and>
    map_of (batch_subjects bd) s_name = Some info"
  then show "int (length (filter (\<lambda>cell. case cell of None \<Rightarrow> False
                                     | Some (subj, fac, room) \<Rightarrow> subj = s_name)
                     (res_schedule r ! b_idx))) = required_hours info"
    by (elim conjE) (rule tg_exact_hours)
next
  assume "solver_contract PSolve \<and>
    solve_timetable PSolve subjects num_batches num_rooms max_per_day max_per_week min_per_day
      days slots limit = Inr (schedule, room_assignments) \<and>
    map_of schedule b = Some row \<and>
    s < length subjects \<and>
    distinct (map fst subjects) \<and> ''Free'' \<notin> fst ` set subjects"
  then show "int (length (filter (\<lambda>cell. cell = fst (subjects ! s)) row)) =
             fst (snd (subjects ! s))"
    by (elim conjE) (rule proto_exact_hours)
qed

theorem exact_weekly_hours_witness:
  "solver_contract (candidate_solver value_w) \<and>
   solve_timetable_model self_w (candidate_solver value_w) batches_w faculty_w classrooms_w
     45 1 2 = Inr result_w \<and>
   map_of batches_w (res_batch_list result_w ! 0) = Some batch_w \<and>
   map_of (batch_subjects batch_w) ''Math'' = Some math_w \<and>
   required_hours math_w = 2 \<and>
   int (length (filter (\<lambda>cell. case cell of None \<Rightarrow> False
                                  | Some (subj, fac, room) \<Rightarrow> subj = ''Math'')
                  (res_schedule result_w ! 0))) = 2 \<and>
   solver_contract (candidate_solver pvalue_w) \<and>
   solve_timetable (candidate_solver pvalue_w) subjects_w 1 1 2 2 1 DAYS slots_w 40 =
     Inr (schedule_w, rooms_w) \<and>
   map_of schedule_w 0 = Some (snd (schedule_w ! 0)) \<and>
   int (length (filter (\<lambda>cell. cell = ''Math'') (snd (schedule_w ! 0)))) = 2"
proof -
  have c: "solver_contract (candidate_solver value_w)"
    by (rule candidate_solver_contract)
  have e: "solve_timetable_model self_w (candidate_solver value_w) batches_w faculty_w
             classrooms_w 45 1 2 = Inr result_w"
    by code_simp
  have b: "0 < length (res_batch_list result_w)"
    "map_of batches_w (res_batch_list result_w ! 0) = Some batch_w"
    "map_of (batch_subjects batch_w) ''Math'' = Some math_w"
    by (simp_all add: result_w_def batches_w_def batch_w_def)
  have h: "required_hours math_w = 2"
    by (simp add: required_hours_def math_w_def)
  have pc: "solver_contract (candidate_solver pvalue_w)"
    by (rule candidate_solver_contract)
  have pe: "solve_timetable (candidate_solver pvalue_w) subjects_w 1 1 2 2 1 DAYS slots_w 40 =
              Inr (schedule_w, rooms_w)"
    by code_simp
  have p: "map_of schedule_w 0 = Some (snd (schedule_w ! 0))" "0 < length subjects_w"
    "distinct (map fst subjects_w)" "''Free'' \<notin> fst ` set subjects_w"
    "fst (subjects_w ! 0) = ''Math''" "fst (snd (subjects_w ! 0)) = 2"
    by (simp_all add: schedule_w_def subjects_w_def)
  note t = exact_weekly_hours
    [where Solve = "candidate_solver value_w" and self = self_w and batches = batches_w
       and faculty = faculty_w and classrooms = classrooms_w and time_limit = 45
       and min_hours_day = 1 and max_hours_day = 2 and r = result_w and b_idx = 0
       and bd = batch_w and s_name = "''Math''" and info = math_w
       and PSolve = "candidate_solver pvalue_w" and subjects = subjects_w and num_batches = 1
       and num_rooms = 1 and max_per_day = 2 and max_per_week = 2 and min_per_day = 1
       and days = DAYS and slots = slots_w and limit = 40 and schedule = schedule_w
       and room_assignments = rooms_w and b = 0 and row = "snd (schedule_w ! 0)" and s = 0]
  from t c e b have 1: "int (length (filter (\<lambda>cell. case cell of None \<Rightarrow> False
                                  | Some (subj, fac, room) \<Rightarrow> subj = ''Math'')
                  (res_schedule result_w ! 0))) = required_hours math_w"
    by blast
  from t pc pe p(1-4) have "int (length (filter (\<lambda>cell. cell = fst (subjects_w ! 0))
                              (snd (schedule_w ! 0)))) = fst (snd (subjects_w ! 0))"
    by blast
  then have 2: "int (length (filter (\<lambda>cell. cell = ''Math'') (snd (schedule_w ! 0)))) = 2"
    by (simp only: p(5,6))
  from c e b(2,3) h 1 pc pe p(1) 2 show ?thesis by simp
qed

lemma tg_cell_of_assignment:
  assumes contract: "solver_contract Solve"
    and ok: "solve_timetable_model self Solve batches faculty classrooms time_limit mn mx = Inr r"
    and m: "build_model self batches faculty classrooms mn mx = Inr m"
    and t: "t < length (get_current_days self) * length (self_slots self)"
    and i: "b < length batches" "s < length (all_subjects_of batches)" "f < length faculty"
           "c < length classrooms"
    and v: "snd (Solve time_limit m) (X b s f c t) = 1"
  shows "res_schedule r ! b ! t =
           Some (all_subjects_of batches ! s, sort (map fst faculty) ! f,
                 sort (map fst classrooms) ! c)"
proof -
  from ok m have st: "fst (Solve time_limit m) \<in> {OPTIMAL, FEASIBLE}"
    and sc: "res_schedule r =
       decode_schedule (snd (Solve time_limit m)) (all_subjects_of batches) (sort (map fst faculty))
         (sort (map fst classrooms)) (length batches)
         (length (get_current_days self) * length (self_slots self))"
    by (auto simp: solve_timetable_model_cases split: if_splits)
  define val where "val = snd (Solve time_limit m)"
  have sat: "satisfies m val"
    using contract st unfolding val_def solver_contract_def by blast
  note hard = satisfies_hard[OF m sat]
  have bool: "\<And>s f c. s < length (all_subjects_of batches) \<Longrightarrow>
                f < length (sort (map fst faculty)) \<Longrightarrow>
                c < length (sort (map fst classrooms)) \<Longrightarrow>
                val (X b s f c t) = 0 \<or> val (X b s f c t) = 1"
    using satisfies_x_bool[OF m sat i(1) _ _ _ t] by simp
  have one: "sum_list (map val [X b s f c t. s \<leftarrow> [0..<length (all_subjects_of batches)],
                                f \<leftarrow> [0..<length (sort (map fst faculty))],
                                c \<leftarrow> [0..<length (sort (map fst classrooms))]]) \<le> 1"
    unfolding length_sort length_map
    using hard hard_constraints_parts(2) i(1) t by (intro batch_slot_sem) blast+
  have "decode_cell val (all_subjects_of batches) (sort (map fst faculty))
          (sort (map fst classrooms)) b t =
        Some (all_subjects_of batches ! s, sort (map fst faculty) ! f,
              sort (map fst classrooms) ! c)"
    using bool one i(2) by (rule decode_cell_of_true) (simp_all add: i v[folded val_def])
  then show ?thesis
    using i(1) t by (simp add: sc decode_schedule_def val_def)
qed

text \<open>
  C4. Whenever a solve succeeds with an engine that honours its contract, then in every
  slot \<open>t\<close>: at most one assignment variable of a batch is true, at most one of a faculty
  member, and at most \<^verbatim>\<open>capacity\<close> many of a classroom; a true variable is the cell the
  schedule shows for its batch; and in the schedule itself a faculty member appears in at
  most one row and a classroom in at most \<^verbatim>\<open>capacity\<close> rows (names being the keys of a
  dictionary, they are distinct). In the prototype, which has subject rows and a room count
  in place of faculty members and classrooms: at most one subject variable of a batch is
  true, at most \<^verbatim>\<open>faculty_count\<close> batches take one subject at once, at most \<^verbatim>\<open>num_rooms\<close>
  batches are occupied, and the room assignment of the slot gives the occupied batches the
  rooms 1, 2, ... in order, none beyond \<^verbatim>\<open>num_rooms\<close>.
\<close>

theorem no_double_booking:
  "(solver_contract Solve \<and>
    solve_timetable_model self Solve batches faculty classrooms time_limit min_hours_day
      max_hours_day = Inr r \<and>
    build_model self batches faculty classrooms min_hours_day max_hours_day = Inr m \<and>
    t < length (get_current_days self) * length (self_slots self) \<longrightarrow>
      (\<forall>b<length batches.
         length (filter (\<lambda>v. snd (Solve time_limit m) v = 1)
                   [X b s f c t. s \<leftarrow> [0..<length (all_subjects_of batches)],
                                 f \<leftarrow> [0..<length faculty], c \<leftarrow> [0..<length classrooms]]) \<le> 1) \<and>
      (\<forall>f<length faculty.
         length (filter (\<lambda>v. snd (Solve time_limit m) v = 1)
                   [X b s f c t. b \<leftarrow> [0..<length batches],
                                 s \<leftarrow> [0..<length (all_subjects_of batches)],
                                 c \<leftarrow> [0..<length classrooms]]) \<le> 1) \<and>
      (\<forall>c<length classrooms.
         int (length (filter (\<lambda>v. snd (Solve time_limit m) v = 1)
                   [X b s f c t. b \<leftarrow> [0..<length batches],
                                 s \<leftarrow> [0..<length (all_subjects_of batches)],
                                 f \<leftarrow> [0..<length faculty]]))
         \<le> capacity (the (map_of classrooms (sort (map fst classrooms) ! c)))) \<and>
      (\<forall>b<length batches. \<forall>s<length (all_subjects_of batches). \<forall>f<length faculty.
         \<forall>c<length classrooms.
           snd (Solve time_limit m) (X b s f c t) = 1 \<longrightarrow>
           res_schedule r ! b ! t =
             Some (all_subjects_of batches ! s, sort (map fst faculty) ! f,
                   sort (map fst classrooms) ! c)) \<and>
      (distinct (map fst faculty) \<longrightarrow>
        (\<forall>f<length faculty.
           length (filter (\<lambda>b. case res_schedule r ! b ! t of
                                  None \<Rightarrow> False
                                | Some (subj, fac, room) \<Rightarrow> fac = sort (map fst faculty) ! f)
                     [0..<length (res_schedule r)]) \<le> 1)) \<and>
      (distinct (map fst classrooms) \<longrightarrow>
        (\<forall>c<length classrooms.
           int (length (filter (\<lambda>b. case res_schedule r ! b ! t of
                                  None \<Rightarrow> False
                                | Some (subj, fac, room) \<Rightarrow> room = sort (map fst classrooms) ! c)
                     [0..<length (res_schedule r)]))
           \<le> capacity (the (map_of classrooms (sort (map fst classrooms) ! c)))))) \<and>
   (solver_contract PSolve \<and>
    solve_timetable PSolve subjects num_batches num_rooms max_per_day max_per_week min_per_day
      days slots limit = Inr (schedule, room_assignments) \<and>
    pm = p_build_model subjects num_batches num_rooms max_per_day max_per_week min_per_day
           days slots \<and>
    u < length days * length slots \<longrightarrow>
      (\<forall>b<nat num_batches.
         length (filter (\<lambda>v. snd (PSolve limit pm) v = 1)
                   [PX b s u. s \<leftarrow> [0..<length subjects]]) \<le> 1) \<and>
      (\<forall>s<length subjects.
         int (length (filter (\<lambda>v. snd (PSolve limit pm) v = 1)
                   [PX b s u. b \<leftarrow> [0..<nat num_batches]])) \<le> snd (snd (subjects ! s))) \<and>
      int (length (filter (\<lambda>b. snd (PSolve limit pm) (PY b u) = 1) [0..<nat num_batches]))
        \<le> num_rooms \<and>
      (\<exists>assigns. map_of room_assignments u = Some assigns \<and>
         map fst assigns = [1..<Suc (length assigns)] \<and>
         map snd assigns = filter (\<lambda>b. snd (PSolve limit pm) (PY b u) = 1) [0..<nat num_batches] \<and>
         int (length assigns) \<le> num_rooms))"
proof (intro conjI impI)
  assume a: "solver_contract Solve \<and>
    solve_timetable_model self Solve batches faculty classrooms time_limit min_hours_day
      max_hours_day = Inr r \<and>
    build_model self batches faculty classrooms min_hours_day max_hours_day = Inr m \<and>
    t < length (get_current_days self) * length (self_slots self)"
  then have c: "solver_contract Solve"
    and ok: "solve_timetable_model self Solve batches faculty classrooms time_limit min_hours_day
      max_hours_day = Inr r"
    and m: "build_model self batches faculty classrooms min_hours_day max_hours_day = Inr m"
    and t: "t < length (get_current_days self) * length (self_slots self)"
    by simp_all
  note vb = tg_bookings[OF c ok m t]
  note sb = tg_schedule_bookings[OF c ok t]
  show "\<forall>b<length batches.
         length (filter (\<lambda>v. snd (Solve time_limit m) v = 1)
                   [X b s f c t. s \<leftarrow> [0..<length (all_subjects_of batches)],
                                 f \<leftarrow> [0..<length faculty], c \<leftarrow> [0..<length classrooms]]) \<le> 1"
    using vb(1) by blast
  show "\<forall>f<length faculty.
         length (filter (\<lambda>v. snd (Solve time_limit m) v = 1)
                   [X b s f c t. b \<leftarrow> [0..<length batches],
                                 s \<leftarrow> [0..<length (all_subjects_of batches)],
                                 c \<leftarrow> [0..<length classrooms]]) \<le> 1"
    using vb(2) by blast
  show "\<forall>c<length classrooms.
         int (length (filter (\<lambda>v. snd (Solve time_limit m) v = 1)
                   [X b s f c t. b \<leftarrow> [0..<length batches],
                                 s \<leftarrow> [0..<length (all_subjects_of batches)],
                                 f \<leftarrow> [0..<length faculty]]))
         \<le> capacity (the (map_of classrooms (sort (map fst classrooms) ! c)))"
    using vb(3) by blast
  show "\<forall>b<length batches. \<forall>s<length (all_subjects_of batches). \<forall>f<length faculty.
         \<forall>c<length classrooms.
           snd (Solve time_limit m) (X b s f c t) = 1 \<longrightarrow>
           res_schedule r ! b ! t =
             Some (all_subjects_of batches ! s, sort (map fst faculty) ! f,
                   sort (map fst classrooms) ! c)"
    using tg_cell_of_assignment[OF c ok m t] by blast
  {
    assume d: "distinct (map fst faculty)"
    show "\<forall>f<length faculty.
           length (filter (\<lambda>b. case res_schedule r ! b ! t of
                                  None \<Rightarrow> False
                                | Some (subj, fac, room) \<Rightarrow> fac = sort (map fst faculty) ! f)
                     [0..<length (res_schedule r)]) \<le> 1"
      using sb(1)[OF _ d] by simp
  }
  {
    assume d: "distinct (map fst classrooms)"
    show "\<forall>c<length classrooms.
           int (length (filter (\<lambda>b. case res_schedule r ! b ! t of
                                  None \<Rightarrow> False
                                | Some (subj, fac, room) \<Rightarrow> room = sort (map fst classrooms) ! c)
                     [0..<length (res_schedule r)]))
           \<le> capacity (the (map_of classrooms (sort (map fst classrooms) ! c)))"
      using sb(2)[OF _ d] by simp
  }
next
  assume a: "solver_contract PSolve \<and>
    solve_timetable PSolve subjects num_batches num_rooms max_per_day max_per_week min_per_day
      days slots limit = Inr (schedule, room_assignments) \<and>
    pm = p_build_model subjects num_batches num_rooms max_per_day max_per_week min_per_day
           days slots \<and>
    u < length days * length slots"
  then have c: "solver_contract PSolve"
    and ok: "solve_timetable PSolve subjects num_batches num_rooms max_per_day max_per_week
               min_per_day days slots limit = Inr (schedule, room_assignments)"
    and pm: "pm = p_build_model subjects num_batches num_rooms max_per_day max_per_week
               min_per_day days slots"
    and u: "u < length days * length slots"
    by simp_all
  note pb = proto_bookings[OF c ok u, folded pm]
  show "\<forall>b<nat num_batches.
         length (filter (\<lambda>v. snd (PSolve limit pm) v = 1)
                   [PX b s u. s \<leftarrow> [0..<length subjects]]) \<le> 1"
    using pb(1) by blast
  show "\<forall>s<length subjects.
         int (length (filter (\<lambda>v. snd (PSolve limit pm) v = 1)
                   [PX b s u. b \<leftarrow> [0..<nat num_batches]])) \<le> snd (snd (subjects ! s))"
    using pb(2) by blast
  show r: "int (length (filter (\<lambda>b. snd (PSolve limit pm) (PY b u) = 1) [0..<nat num_batches]))
        \<le> num_rooms"
    using pb(3) .
  show "\<exists>assigns. map_of room_assignments u = Some assigns \<and>
         map fst assigns = [1..<Suc (length assigns)] \<and>
         map snd assigns = filter (\<lambda>b. snd (PSolve limit pm) (PY b u) = 1) [0..<nat num_batches] \<and>
         int (length assigns) \<le> num_rooms"
  proof (intro exI conjI)
    show "map_of room_assignments u =
            Some (p_room_assignments (snd (PSolve limit pm)) (nat num_batches) u)"
      using pb(4) .
    have l: "length (p_room_assignments (snd (PSolve limit pm)) (nat num_batches) u) =
          length (filter (\<lambda>b. snd (PSolve limit pm) (PY b u) = 1) [0..<nat num_batches])"
      using p_room_assignments_shape(2)[of "snd (PSolve limit pm)" "nat num_batches" u]
      by (metis length_map)
    show "map fst (p_room_assignments (snd (PSolve limit pm)) (nat num_batches) u) =
          [1..<Suc (length (p_room_assignments (snd (PSolve limit pm)) (nat num_batches) u))]"
      unfolding l by (rule p_room_assignments_shape(1))
    show "map snd (p_room_assignments (snd (PSolve limit pm)) (nat num_batches) u) =
          filter (\<lambda>b. snd (PSolve limit pm) (PY b u) = 1) [0..<nat num_batches]"
      by (rule p_room_assignments_shape(2))
    show "int (length (p_room_assignments (snd (PSolve limit pm)) (nat num_batches) u)) \<le> num_rooms"
      unfolding l using r .
  qed
qed

theorem no_double_booking_witness:
  "solver_contract (candidate_solver value_w) \<and>
   solve_timetable_model self_w (candidate_solver value_w) batches_w faculty_w classrooms_w
     45 1 2 = Inr result_w \<and>
   build_model self_w batches_w faculty_w classrooms_w 1 2 = Inr model_w \<and>
   (0::nat) < length (get_current_days self_w) * length (self_slots self_w) \<and>
   distinct (map fst faculty_w) \<and>
   length (filter (\<lambda>v. snd (candidate_solver value_w 45 model_w) v = 1)
             [X 0 s f c 0. s \<leftarrow> [0..<length (all_subjects_of batches_w)],
                           f \<leftarrow> [0..<length faculty_w], c \<leftarrow> [0..<length classrooms_w]]) \<le> 1 \<and>
   length (filter (\<lambda>b. case res_schedule result_w ! b ! 0 of
                          None \<Rightarrow> False
                        | Some (subj, fac, room) \<Rightarrow> fac = sort (map fst faculty_w) ! 0)
             [0..<length (res_schedule result_w)]) \<le> 1 \<and>
   solver_contract (candidate_solver pvalue_w) \<and>
   solve_timetable (candidate_solver pvalue_w) subjects_w 1 1 2 2 1 DAYS slots_w 40 =
     Inr (schedule_w, rooms_w) \<and>
   (0::nat) < length DAYS * length slots_w \<and>
   int (length (filter (\<lambda>b. snd (candidate_solver pvalue_w 40 pmodel_w) (PY b 0) = 1)
                  [0..<nat 1])) \<le> 1"
proof -
  have c: "solver_contract (candidate_solver value_w)"
    by (rule candidate_solver_contract)
  have e: "solve_timetable_model self_w (candidate_solver value_w) batches_w faculty_w
             classrooms_w 45 1 2 = Inr result_w"
    by code_simp
  have m: "build_model self_w batches_w faculty_w classrooms_w 1 2 = Inr model_w"
    unfolding model_w_def by code_simp
  have t: "(0::nat) < length (get_current_days self_w) * length (self_slots self_w)"
    by (simp add: get_current_days_def self_w_def DAYS_def)
  have d: "distinct (map fst faculty_w)" "0 < length batches_w" "0 < length faculty_w"
    by (simp_all add: faculty_w_def batches_w_def)
  have A: "solver_contract (candidate_solver value_w) \<and>
    solve_timetable_model self_w (candidate_solver value_w) batches_w faculty_w classrooms_w
      45 1 2 = Inr result_w \<and>
    build_model self_w batches_w faculty_w classrooms_w 1 2 = Inr model_w \<and>
    0 < length (get_current_days self_w) * length (self_slots self_w)"
    using c e m t by (intro conjI)
  note T = no_double_booking
    [where Solve = "candidate_solver value_w" and self = self_w and batches = batches_w
       and faculty = faculty_w and classrooms = classrooms_w and time_limit = 45
       and min_hours_day = 1 and max_hours_day = 2 and r = result_w and m = model_w and t = 0,
     THEN conjunct1, THEN mp, OF A]
  have 1: "length (filter (\<lambda>v. snd (candidate_solver value_w 45 model_w) v = 1)
             [X 0 s f c 0. s \<leftarrow> [0..<length (all_subjects_of batches_w)],
                           f \<leftarrow> [0..<length faculty_w], c \<leftarrow> [0..<length classrooms_w]]) \<le> 1"
    using T[THEN conjunct1, rule_format, of 0] d(2) by blast
  have 2: "length (filter (\<lambda>b. case res_schedule result_w ! b ! 0 of
                          None \<Rightarrow> False
                        | Some (subj, fac, room) \<Rightarrow> fac = sort (map fst faculty_w) ! 0)
             [0..<length (res_schedule result_w)]) \<le> 1"
    using T[THEN conjunct2, THEN conjunct2, THEN conjunct2, THEN conjunct2, THEN conjunct1,
            rule_format, of 0] d(1,3) by blast
  have pc: "solver_contract (candidate_solver pvalue_w)"
    by (rule candidate_solver_contract)
  have pe: "solve_timetable (candidate_solver pvalue_w) subjects_w 1 1 2 2 1 DAYS slots_w 40 =
              Inr (schedule_w, rooms_w)"
    by code_simp
  have u: "(0::nat) < length DAYS * length slots_w"
    by (simp add: DAYS_def slots_w_def)
  have B: "solver_contract (candidate_solver pvalue_w) \<and>
    solve_timetable (candidate_solver pvalue_w) subjects_w 1 1 2 2 1 DAYS slots_w 40 =
      Inr (schedule_w, rooms_w) \<and>
    pmodel_w = p_build_model subjects_w 1 1 2 2 1 DAYS slots_w \<and>
    0 < length DAYS * length slots_w"
    using pc pe u by (intro conjI) (simp_all add: pmodel_w_def)
  note P = no_double_booking
    [where PSolve = "candidate_solver pvalue_w" and subjects = subjects_w and num_batches = 1
       and num_rooms = 1 and max_per_day = 2 and max_per_week = 2 and min_per_day = 1
       and days = DAYS and slots = slots_w and limit = 40 and schedule = schedule_w
       and room_assignments = rooms_w and pm = pmodel_w and u = 0,
     THEN conjunct2, THEN mp, OF B]
  have 3: "int (length (filter (\<lambda>b. snd (candidate_solver pvalue_w 40 pmodel_w) (PY b 0) = 1)
                  [0..<nat 1])) \<le> 1"
    using P[THEN conjunct2, THEN conjunct2, THEN conjunct1] .
  from c e m t d(1) 1 2 pc pe u 3 show ?thesis by (intro conjI)
qed



section \<open>Failures\<close>

text \<open>
  C3. Let a batch require a subject with positive weekly hours, and let no faculty member's
  assignments hold that subject for that batch. Then no values satisfy the model that
  \<^verbatim>\<open>solve_timetable_model\<close> builds, and with an engine that honours its contract the solve
  returns no schedule: it ends in the \<^verbatim>\<open>RuntimeError\<close> of the failed solve (or, before the
  model is complete, in the \<^verbatim>\<open>ValueError\<close> of a slot label whose start hour is not an
  integer).
\<close>

theorem no_faculty_no_schedule:
  "map_of batches b_name = Some bd \<and>
   map_of (batch_subjects bd) s_name = Some info \<and>
   required_hours info > 0 \<and>
   (\<forall>(fac, dat) \<in> set faculty.
      case map_of (assignments dat) s_name of None \<Rightarrow> True | Some bs \<Rightarrow> b_name \<notin> bs) \<longrightarrow>
     (\<forall>m val. build_model self batches faculty classrooms min_hours_day max_hours_day = Inr m \<longrightarrow>
        \<not> satisfies m val) \<and>
     (solver_contract Solve \<longrightarrow>
        solve_timetable_model self Solve batches faculty classrooms time_limit min_hours_day
          max_hours_day =
          (case build_model self batches faculty classrooms min_hours_day max_hours_day of
             Inl e \<Rightarrow> Inl e
           | Inr m \<Rightarrow> Inl (RuntimeError no_solution_message)))"
proof (intro impI conjI allI)
  fix m val
  assume "map_of batches b_name = Some bd \<and>
   map_of (batch_subjects bd) s_name = Some info \<and>
   required_hours info > 0 \<and>
   (\<forall>(fac, dat) \<in> set faculty.
      case map_of (assignments dat) s_name of None \<Rightarrow> True | Some bs \<Rightarrow> b_name \<notin> bs)"
    and "build_model self batches faculty classrooms min_hours_day max_hours_day = Inr m"
  then show "\<not> satisfies m val"
    by (elim conjE) (rule tg_no_faculty_unsat)
next
  assume "map_of batches b_name = Some bd \<and>
   map_of (batch_subjects bd) s_name = Some info \<and>
   required_hours info > 0 \<and>
   (\<forall>(fac, dat) \<in> set faculty.
      case map_of (assignments dat) s_name of None \<Rightarrow> True | Some bs \<Rightarrow> b_name \<notin> bs)"
    and "solver_contract Solve"
  then show "solve_timetable_model self Solve batches faculty classrooms time_limit min_hours_day
          max_hours_day =
          (case build_model self batches faculty classrooms min_hours_day max_hours_day of
             Inl e \<Rightarrow> Inl e
           | Inr m \<Rightarrow> Inl (RuntimeError no_solution_message))"
    by (elim conjE) (rule tg_no_faculty_fails)
qed

theorem no_faculty_no_schedule_witness:
  "map_of batches_w ''B1'' = Some batch_w \<and>
   map_of (batch_subjects batch_w) ''Math'' = Some math_w \<and>
   required_hours math_w > 0 \<and>
   faculty_for_subject faculty_elsewhere ''Math'' ''B1'' = [] \<and>
   solver_contract (candidate_solver value_w) \<and>
   build_model self_w batches_w faculty_elsewhere classrooms_w 1 2 =
     Inr (projr (build_model self_w batches_w faculty_elsewhere classrooms_w 1 2)) \<and>
   \<not> satisfies (projr (build_model self_w batches_w faculty_elsewhere classrooms_w 1 2)) value_w \<and>
   solve_timetable_model self_w (candidate_solver value_w) batches_w faculty_elsewhere
     classrooms_w 45 1 2 = Inl (RuntimeError no_solution_message)"
proof -
  have h: "map_of batches_w ''B1'' = Some batch_w"
    "map_of (batch_subjects batch_w) ''Math'' = Some math_w"
    "required_hours math_w > 0"
    by (simp_all add: batches_w_def batch_w_def math_w_def required_hours_def)
  have n: "\<forall>(fac, dat) \<in> set faculty_elsewhere.
      case map_of (assignments dat) ''Math'' of None \<Rightarrow> True | Some bs \<Rightarrow> ''B1'' \<notin> bs"
    by (simp add: faculty_elsewhere_def)
  have f: "faculty_for_subject faculty_elsewhere ''Math'' ''B1'' = []"
    using n by (rule faculty_for_subject_empty)
  have c: "solver_contract (candidate_solver value_w)"
    by (rule candidate_solver_contract)
  have m: "build_model self_w batches_w faculty_elsewhere classrooms_w 1 2 =
     Inr (projr (build_model self_w batches_w faculty_elsewhere classrooms_w 1 2))"
    by code_simp
  have A: "map_of batches_w ''B1'' = Some batch_w \<and>
   map_of (batch_subjects batch_w) ''Math'' = Some math_w \<and>
   required_hours math_w > 0 \<and>
   (\<forall>(fac, dat) \<in> set faculty_elsewhere.
      case map_of (assignments dat) ''Math'' of None \<Rightarrow> True | Some bs \<Rightarrow> ''B1'' \<notin> bs)"
    using h n by (intro conjI)
  note T = no_faculty_no_schedule
    [where batches = batches_w and b_name = "''B1''" and bd = batch_w and s_name = "''Math''"
       and info = math_w and faculty = faculty_elsewhere and self = self_w
       and classrooms = classrooms_w and min_hours_day = 1 and max_hours_day = 2
       and Solve = "candidate_solver value_w" and time_limit = 45,
     THEN mp, OF A]
  have 1: "\<not> satisfies (projr (build_model self_w batches_w faculty_elsewhere classrooms_w 1 2))
             value_w"
    using T[THEN conjunct1, rule_format, OF m] .
  have "solve_timetable_model self_w (candidate_solver value_w) batches_w faculty_elsewhere
          classrooms_w 45 1 2 =
        (case build_model self_w batches_w faculty_elsewhere classrooms_w 1 2 of
           Inl e \<Rightarrow> Inl e
         | Inr m \<Rightarrow> Inl (RuntimeError no_solution_message))"
    using T[THEN conjunct2, THEN mp, OF c] .
  then have 2: "solve_timetable_model self_w (candidate_solver value_w) batches_w
                  faculty_elsewhere classrooms_w 45 1 2 = Inl (RuntimeError no_solution_message)"
    by (subst (asm) m) simp
  from h f c m 1 2 show ?thesis by (intro conjI)
qed

text \<open>
  C6, as stated, fails: the decoding checks nothing. When an engine reports \<^verbatim>\<open>FEASIBLE\<close>
  with the variables of rooms R1 and R2 both set for batch 0 in slot 0, the solve returns a
  schedule, and its cell shows R2 alone.
\<close>

theorem decoder_keeps_one_of_two:
  "value_double (X 0 0 0 0 0) = 1 \<and> value_double (X 0 0 0 1 0) = 1 \<and>
   solve_timetable_model self_w (fixed_engine FEASIBLE value_double) batches_w faculty_w
     classrooms_2 45 1 2 = Inr result_double \<and>
   res_schedule result_double ! 0 ! 0 = Some (''Math'', ''F1'', ''R2'')"
  by code_simp

text \<open>
  C6, amended. Decoding is a function of the values alone and has no consistency check:
  whenever the model is built and the engine reports \<^verbatim>\<open>OPTIMAL\<close> or \<^verbatim>\<open>FEASIBLE\<close>, whatever
  the values are, a schedule is returned; a cell is \<^verbatim>\<open>None\<close> when no variable of its batch
  and slot is non-zero, and otherwise shows the last non-zero variable in the order of the
  loops over subjects, faculty and classrooms.
\<close>

theorem decoder_keeps_last_assignment:
  "build_model self batches faculty classrooms min_hours_day max_hours_day = Inr m \<and>
   fst (Solve time_limit m) \<in> {OPTIMAL, FEASIBLE} \<longrightarrow>
     (\<exists>r. solve_timetable_model self Solve batches faculty classrooms time_limit min_hours_day
             max_hours_day = Inr r \<and>
        (\<forall>b<length batches. \<forall>t<length (get_current_days self) * length (self_slots self).
           res_schedule r ! b ! t =
             (let ys = filter (\<lambda>(s, f, c). snd (Solve time_limit m) (X b s f c t) \<noteq> 0)
                         [(s, f, c). s \<leftarrow> [0..<length (all_subjects_of batches)],
                                     f \<leftarrow> [0..<length (sort (map fst faculty))],
                                     c \<leftarrow> [0..<length (sort (map fst classrooms))]]
              in if ys = [] then None
                 else Some (case last ys of
                              (s, f, c) \<Rightarrow> (all_subjects_of batches ! s,
                                            sort (map fst faculty) ! f,
                                            sort (map fst classrooms) ! c)))))"
proof (intro impI)
  assume "build_model self batches faculty classrooms min_hours_day max_hours_day = Inr m \<and>
   fst (Solve time_limit m) \<in> {OPTIMAL, FEASIBLE}"
  then have m: "build_model self batches faculty classrooms min_hours_day max_hours_day = Inr m"
    and st: "fst (Solve time_limit m) \<in> {OPTIMAL, FEASIBLE}" by simp_all
  show "\<exists>r. solve_timetable_model self Solve batches faculty classrooms time_limit min_hours_day
             max_hours_day = Inr r \<and>
        (\<forall>b<length batches. \<forall>t<length (get_current_days self) * length (self_slots self).
           res_schedule r ! b ! t =
             (let ys = filter (\<lambda>(s, f, c). snd (Solve time_limit m) (X b s f c t) \<noteq> 0)
                         [(s, f, c). s \<leftarrow> [0..<length (all_subjects_of batches)],
                                     f \<leftarrow> [0..<length (sort (map fst faculty))],
                                     c \<leftarrow> [0..<length (sort (map fst classrooms))]]
              in if ys = [] then None
                 else Some (case last ys of
                              (s, f, c) \<Rightarrow> (all_subjects_of batches ! s,
                                            sort (map fst faculty) ! f,
                                            sort (map fst classrooms) ! c))))"
    using m st
    by (simp add: solve_timetable_model_cases decode_schedule_def decode_cell_last
          del: length_sort)
qed

theorem decoder_keeps_last_assignment_witness:
  "build_model self_w batches_w faculty_w classrooms_2 1 2 =
     Inr (projr (build_model self_w batches_w faculty_w classrooms_2 1 2)) \<and>
   fst (fixed_engine FEASIBLE value_double 45
          (projr (build_model self_w batches_w faculty_w classrooms_2 1 2)))
     \<in> {OPTIMAL, FEASIBLE} \<and>
   (\<exists>r. solve_timetable_model self_w (fixed_engine FEASIBLE value_double) batches_w faculty_w
           classrooms_2 45 1 2 = Inr r)"
proof -
  have m: "build_model self_w batches_w faculty_w classrooms_2 1 2 =
     Inr (projr (build_model self_w batches_w faculty_w classrooms_2 1 2))"
    by code_simp
  have s: "fst (fixed_engine FEASIBLE value_double 45
          (projr (build_model self_w batches_w faculty_w classrooms_2 1 2)))
     \<in> {OPTIMAL, FEASIBLE}"
    by (simp add: fixed_engine_def)
  from decoder_keeps_last_assignment
    [where self = self_w and batches = batches_w and faculty = faculty_w
       and classrooms = classrooms_2 and min_hours_day = 1 and max_hours_day = 2
       and m = "projr (build_model self_w batches_w faculty_w classrooms_2 1 2)"
       and Solve = "fixed_engine FEASIBLE value_double" and time_limit = 45,
     THEN mp, OF conjI, OF m s]
  have "\<exists>r. solve_timetable_model self_w (fixed_engine FEASIBLE value_double) batches_w faculty_w
           classrooms_2 45 1 2 = Inr r"
    by blast
  with m s show ?thesis by (intro conjI)
qed




text \<open>
  C8, as stated, fails in its last part: the programs have one error for every status
  other than \<^verbatim>\<open>OPTIMAL\<close> and \<^verbatim>\<open>FEASIBLE\<close>. An engine that reports \<^verbatim>\<open>INFEASIBLE\<close> and one that
  reports \<^verbatim>\<open>UNKNOWN\<close> lead to the same \<^verbatim>\<open>RuntimeError\<close> with the same message, in both
  programs.
\<close>

theorem infeasible_and_timeout_same_error:
  "solve_timetable_model self_w (fixed_engine INFEASIBLE value_w) batches_w faculty_w
     classrooms_w 45 1 2 = Inl (RuntimeError no_solution_message) \<and>
   solve_timetable_model self_w (fixed_engine UNKNOWN value_w) batches_w faculty_w
     classrooms_w 45 1 2 = Inl (RuntimeError no_solution_message) \<and>
   solve_timetable (fixed_engine INFEASIBLE pvalue_w) subjects_w 1 1 2 2 1 DAYS slots_w 40 =
     Inl (RuntimeError p_no_solution_message) \<and>
   solve_timetable (fixed_engine UNKNOWN pvalue_w) subjects_w 1 1 2 2 1 DAYS slots_w 40 =
     Inl (RuntimeError p_no_solution_message)"
  by code_simp

text \<open>
  C8, amended. Once the model is built (in the prototype: once the checks have passed), the
  solve returns a decoded schedule exactly when the status is \<^verbatim>\<open>OPTIMAL\<close> or \<^verbatim>\<open>FEASIBLE\<close>;
  for every other status it raises one and the same \<^verbatim>\<open>RuntimeError\<close> with a fixed message,
  which does not tell infeasibility from a timeout.
\<close>

theorem status_decides_result:
  "(build_model self batches faculty classrooms min_hours_day max_hours_day = Inr m \<longrightarrow>
      (fst (Solve time_limit m) \<in> {OPTIMAL, FEASIBLE} \<longrightarrow>
         (\<exists>r. solve_timetable_model self Solve batches faculty classrooms time_limit
                 min_hours_day max_hours_day = Inr r)) \<and>
      (fst (Solve time_limit m) \<notin> {OPTIMAL, FEASIBLE} \<longrightarrow>
         solve_timetable_model self Solve batches faculty classrooms time_limit
           min_hours_day max_hours_day = Inl (RuntimeError no_solution_message))) \<and>
   (feasibility_checks subjects num_batches num_rooms max_per_day max_per_week min_per_day
      days slots = None \<and>
    pm = p_build_model subjects num_batches num_rooms max_per_day max_per_week min_per_day
           days slots \<longrightarrow>
      (fst (PSolve limit pm) \<in> {OPTIMAL, FEASIBLE} \<longrightarrow>
         (\<exists>r. solve_timetable PSolve subjects num_batches num_rooms max_per_day max_per_week
                 min_per_day days slots limit = Inr r)) \<and>
      (fst (PSolve limit pm) \<notin> {OPTIMAL, FEASIBLE} \<longrightarrow>
         solve_timetable PSolve subjects num_batches num_rooms max_per_day max_per_week
           min_per_day days slots limit = Inl (RuntimeError p_no_solution_message)))"
  by (simp add: solve_timetable_model_cases solve_timetable_cases)

theorem status_decides_result_witness:
  "build_model self_w batches_w faculty_w classrooms_w 1 2 = Inr model_w \<and>
   fst (fixed_engine INFEASIBLE value_w 45 model_w) \<notin> {OPTIMAL, FEASIBLE} \<and>
   solve_timetable_model self_w (fixed_engine INFEASIBLE value_w) batches_w faculty_w
     classrooms_w 45 1 2 = Inl (RuntimeError no_solution_message) \<and>
   fst (fixed_engine OPTIMAL value_w 45 model_w) \<in> {OPTIMAL, FEASIBLE} \<and>
   (\<exists>r. solve_timetable_model self_w (fixed_engine OPTIMAL value_w) batches_w faculty_w
           classrooms_w 45 1 2 = Inr r) \<and>
   feasibility_checks subjects_w 1 1 2 2 1 DAYS slots_w = None \<and>
   fst (fixed_engine UNKNOWN pvalue_w 40 pmodel_w) \<notin> {OPTIMAL, FEASIBLE} \<and>
   solve_timetable (fixed_engine UNKNOWN pvalue_w) subjects_w 1 1 2 2 1 DAYS slots_w 40 =
     Inl (RuntimeError p_no_solution_message)"
proof -
  have m: "build_model self_w batches_w faculty_w classrooms_w 1 2 = Inr model_w"
    unfolding model_w_def by code_simp
  have s: "fst (fixed_engine INFEASIBLE value_w 45 model_w) \<notin> {OPTIMAL, FEASIBLE}"
    "fst (fixed_engine OPTIMAL value_w 45 model_w) \<in> {OPTIMAL, FEASIBLE}"
    "fst (fixed_engine UNKNOWN pvalue_w 40 pmodel_w) \<notin> {OPTIMAL, FEASIBLE}"
    by (simp_all add: fixed_engine_def)
  have f: "feasibility_checks subjects_w 1 1 2 2 1 DAYS slots_w = None"
    by code_simp
  have 1: "solve_timetable_model self_w (fixed_engine INFEASIBLE value_w) batches_w faculty_w
     classrooms_w 45 1 2 = Inl (RuntimeError no_solution_message)"
    using status_decides_result
      [where self = self_w and batches = batches_w and faculty = faculty_w
         and classrooms = classrooms_w and min_hours_day = 1 and max_hours_day = 2
         and m = model_w and time_limit = 45 and Solve = "fixed_engine INFEASIBLE value_w",
       THEN conjunct1, THEN mp, OF m, THEN conjunct2, THEN mp, OF s(1)] .
  have 2: "\<exists>r. solve_timetable_model self_w (fixed_engine OPTIMAL value_w) batches_w faculty_w
           classrooms_w 45 1 2 = Inr r"
    using status_decides_result
      [where self = self_w and batches = batches_w and faculty = faculty_w
         and classrooms = classrooms_w and min_hours_day = 1 and max_hours_day = 2
         and m = model_w and time_limit = 45 and Solve = "fixed_engine OPTIMAL value_w",
       THEN conjunct1, THEN mp, OF m, THEN conjunct1, THEN mp, OF s(2)] .
  have B: "feasibility_checks subjects_w 1 1 2 2 1 DAYS slots_w = None \<and>
           pmodel_w = p_build_model subjects_w 1 1 2 2 1 DAYS slots_w"
    using f by (simp add: pmodel_w_def)
  have 3: "solve_timetable (fixed_engine UNKNOWN pvalue_w) subjects_w 1 1 2 2 1 DAYS slots_w 40 =
     Inl (RuntimeError p_no_solution_message)"
    using status_decides_result
      [where subjects = subjects_w and num_batches = 1 and num_rooms = 1 and max_per_day = 2
         and max_per_week = 2 and min_per_day = 1 and days = DAYS and slots = slots_w
         and pm = pmodel_w and PSolve = "fixed_engine UNKNOWN pvalue_w" and limit = 40,
       THEN conjunct2, THEN mp, OF B, THEN conjunct2, THEN mp, OF s(3)] .
  from m s(1) 1 s(2) 2 f s(3) 3 show ?thesis by (intro conjI)
qed

section \<open>The indicators of the objective\<close>

text \<open>
  The prototype ties each of its indicators in both directions: in every solution of its
  model, \<^verbatim>\<open>full_slot[t]\<close> is 1 exactly when all rooms are taken, \<^verbatim>\<open>adj_b_d_k\<close> is 1 exactly
  when both neighbouring slots are occupied, and \<^verbatim>\<open>day_active_b_d\<close> is 0 exactly when the
  batch has no class that day.
\<close>

lemma prototype_indicators_two_way:
  fixes val :: "pvar \<Rightarrow> int"
  assumes sat: "satisfies (p_build_model subjects num_batches num_rooms max_per_day max_per_week
                  min_per_day days slots) val"
  shows "t < length days * length slots \<Longrightarrow>
           val (Full_slot t) = 1 \<longleftrightarrow> val (Slot_filled t) = num_rooms"
    and "b < nat num_batches \<Longrightarrow> d < length days \<Longrightarrow> k < length slots - 1 \<Longrightarrow>
           val (PAdj b d k) = 1 \<longleftrightarrow>
             val (PY b (d * length slots + k)) = 1 \<and> val (PY b (d * length slots + k + 1)) = 1"
    and "b < nat num_batches \<Longrightarrow> d < length days \<Longrightarrow>
           val (Day_active b d) = 0 \<longleftrightarrow> eval_lin val (p_daily_hours (length slots) b d) = 0"
proof -
  define m where "m = p_build_model subjects num_batches num_rooms max_per_day max_per_week
                  min_per_day days slots"
  have bv: "\<And>v. v \<in> set (bool_vars m) \<Longrightarrow> val v = 0 \<or> val v = 1"
    and cs: "\<And>c. c \<in> set (constraints m) \<Longrightarrow> holds val c"
    using sat unfolding m_def satisfies_def by blast+
  have parts:
    "set [Full_slot t. t \<leftarrow> [0..<length days * length slots]] \<subseteq> set (bool_vars m)"
    "set [PAdj b d k. (b, d, k) \<leftarrow> padj_keys (nat num_batches) (length days) (length slots)]
       \<subseteq> set (bool_vars m)"
    "set (active_vars (nat num_batches) (length days)) \<subseteq> set (bool_vars m)"
    "set (py_vars (nat num_batches) (length days * length slots)) \<subseteq> set (bool_vars m)"
    "set (full_slot_constraints (length days * length slots) num_rooms) \<subseteq> set (constraints m)"
    "set (padj_constraints (nat num_batches) (length days) (length slots)) \<subseteq> set (constraints m)"
    "set (p_day_constraints (nat num_batches) (length days) (length slots) max_per_day min_per_day)
       \<subseteq> set (constraints m)"
    unfolding m_def p_build_model_def Let_def by (auto intro!: rev_image_eqI)
  {
    assume t: "t < length days * length slots"
    have "Full_slot t \<in> set (bool_vars m)" using parts(1) t by auto
    then have b: "val (Full_slot t) = 0 \<or> val (Full_slot t) = 1" by (rule bv)
    have "Linear (Sum [Slot_filled t]) EQ (Const num_rooms) [Pos (Full_slot t)]
            \<in> set (constraints m)"
         "Linear (Sum [Slot_filled t]) NE (Const num_rooms) [Neg (Full_slot t)]
            \<in> set (constraints m)"
      using parts(5) t by (force simp: full_slot_constraints_def)+
    then have "holds val (Linear (Sum [Slot_filled t]) EQ (Const num_rooms) [Pos (Full_slot t)])"
      "holds val (Linear (Sum [Slot_filled t]) NE (Const num_rooms) [Neg (Full_slot t)])"
      using cs by blast+
    with b show "val (Full_slot t) = 1 \<longleftrightarrow> val (Slot_filled t) = num_rooms" by auto
  }
  {
    assume i: "b < nat num_batches" "d < length days" "k < length slots - 1"
    then have key: "(b, d, k) \<in> set (padj_keys (nat num_batches) (length days) (length slots))"
      by (force simp: padj_keys_def)
    then have "PAdj b d k \<in> set (bool_vars m)" using parts(2) by force
    then have a: "val (PAdj b d k) = 0 \<or> val (PAdj b d k) = 1" by (rule bv)
    have lt: "d * length slots + k < length days * length slots"
             "d * length slots + k + 1 < length days * length slots"
    proof -
      have "d * length slots + length slots \<le> length days * length slots"
        using i(2) by (metis Suc_leI mult_Suc mult_le_mono1 add.commute)
      with i(3) show "d * length slots + k < length days * length slots"
        "d * length slots + k + 1 < length days * length slots" by linarith+
    qed
    have "PY b (d * length slots + k) \<in> set (bool_vars m)"
         "PY b (d * length slots + k + 1) \<in> set (bool_vars m)"
      using parts(4) i(1) lt by (force simp: py_vars_def)+
    then have y: "val (PY b (d * length slots + k)) = 0 \<or> val (PY b (d * length slots + k)) = 1"
      "val (PY b (d * length slots + k + 1)) = 0 \<or> val (PY b (d * length slots + k + 1)) = 1"
      using bv by blast+
    have "BoolAnd [Pos (PY b (d * length slots + k)), Pos (PY b (d * length slots + k + 1))]
                  [Pos (PAdj b d k)] \<in> set (constraints m)"
         "BoolOr [Neg (PY b (d * length slots + k)), Neg (PY b (d * length slots + k + 1))]
                 [Neg (PAdj b d k)] \<in> set (constraints m)"
      using parts(6) key by (force simp: padj_constraints_def)+
    then have "holds val (BoolAnd [Pos (PY b (d * length slots + k)),
                                   Pos (PY b (d * length slots + k + 1))] [Pos (PAdj b d k)])"
      "holds val (BoolOr [Neg (PY b (d * length slots + k)),
                          Neg (PY b (d * length slots + k + 1))] [Neg (PAdj b d k)])"
      using cs by blast+
    with a y show "val (PAdj b d k) = 1 \<longleftrightarrow>
             val (PY b (d * length slots + k)) = 1 \<and> val (PY b (d * length slots + k + 1)) = 1"
      by auto
  }
  {
    assume i: "b < nat num_batches" "d < length days"
    then have "Day_active b d \<in> set (bool_vars m)"
      using parts(3) by (force simp: active_vars_def)
    then have a: "val (Day_active b d) = 0 \<or> val (Day_active b d) = 1" by (rule bv)
    have "Linear (p_daily_hours (length slots) b d) GE (Const 1) [Pos (Day_active b d)]
            \<in> set (constraints m)"
         "Linear (p_daily_hours (length slots) b d) EQ (Const 0) [Neg (Day_active b d)]
            \<in> set (constraints m)"
      using parts(7) i by (force simp: p_day_constraints_def)+
    then have "holds val (Linear (p_daily_hours (length slots) b d) GE (Const 1)
                            [Pos (Day_active b d)])"
      "holds val (Linear (p_daily_hours (length slots) b d) EQ (Const 0)
                            [Neg (Day_active b d)])"
      using cs by blast+
    with a show "val (Day_active b d) = 0 \<longleftrightarrow>
                 eval_lin val (p_daily_hours (length slots) b d) = 0"
      by auto
  }
qed

text \<open>
  C2 does not hold of \<^verbatim>\<open>solve_timetable_model\<close>: each of its indicators is tied to its
  condition in one direction only (indicator true implies condition), so a solution may
  leave an indicator false although its condition holds. With four slots a day, a four-hour
  lecture and a faculty member who prefers mornings, the values \<open>value_lax\<close> are accepted as
  a solution, and in them: batch 0 has no class on Tuesday but its free-day indicator is 0;
  slots 0 and 1 are both occupied but their adjacency indicator is 0; slots 0 to 3 are all
  occupied but the long-stretch indicator is 0; the faculty member teaches in the slot that
  starts at 12 but the preference indicator of that slot is 0.
\<close>

theorem indicators_tied_one_way_only:
  "solve_timetable_model self_4 (candidate_solver value_lax) batches_4 faculty_4 classrooms_4
     45 1 4 = Inr result_4 \<and>
   fst (candidate_solver value_lax 45
          (projr (build_model self_4 batches_4 faculty_4 classrooms_4 1 4))) = FEASIBLE \<and>
   value_lax (Free_day 0 1) = 0 \<and> eval_lin value_lax (daily_hours 4 0 1) = 0 \<and>
   value_lax (Adj 0 0 0) = 0 \<and> value_lax (Y 0 0) = 1 \<and> value_lax (Y 0 1) = 1 \<and>
   value_lax (Long_stretch 0 0 0) = 0 \<and> map value_lax [Y 0 0, Y 0 1, Y 0 2, Y 0 3] = [1, 1, 1, 1] \<and>
   value_lax (Pref 0 3) = 0 \<and> value_lax (X 0 0 0 0 3) = 1 \<and>
   slot_start_hour (self_slots self_4 ! 3) = Some 12"
  by code_simp

end
